theory Spec2Isabelle
  imports Complex_Main "HOL-Library.Sublist"
begin

unbundle bit_operations_syntax

chapter \<open>CardDemo API: the request pipeline's services\<close>

text \<open>
  A shallow embedding of the parts of the CardDemo API that its specification makes
  promises about: the database error handler and its retry loop
  (\<^verbatim>\<open>services/logging_service.py\<close>, \<^verbatim>\<open>database.py\<close>), the encryption service
  (\<^verbatim>\<open>services/encryption_service.py\<close>), password verification
  (\<^verbatim>\<open>services/auth_service.py\<close>), the error envelope
  (\<^verbatim>\<open>middleware/error_handler.py\<close>) and the rate limiter
  (\<^verbatim>\<open>middleware/rate_limit.py\<close>).

  Conventions. The texts of the error handler, the sanitizer and the middleware are of
  type \<^typ>\<open>string\<close>, read as UTF-8 bytes; the case conversions act on the ASCII range,
  which is where every pattern of the source lives. The card numbers and plaintexts of
  the encryption service, whose characters the code counts and asks for digits, are
  lists of code points. An exception is a value: a function that can raise returns a sum
  with the exception on the left. Mutable objects (the error handler, the rate
  limiter's windows) are records passed in and returned. Logging is left out: it
  changes no value that the code branches on.
\<close>

section \<open>Python string operations\<close>

definition is_ascii_upper :: "char \<Rightarrow> bool" where
  "is_ascii_upper c = (let n = (of_char c :: nat) in 65 \<le> n \<and> n \<le> 90)"

definition is_ascii_lower :: "char \<Rightarrow> bool" where
  "is_ascii_lower c = (let n = (of_char c :: nat) in 97 \<le> n \<and> n \<le> 122)"

text \<open>Upper and lower case ASCII letters differ in the bit of value 32.\<close>

definition lower_char :: "char \<Rightarrow> char" where
  "lower_char c =
     (if is_ascii_upper c
      then (case c of Char b0 b1 b2 b3 b4 b5 b6 b7 \<Rightarrow> Char b0 b1 b2 b3 b4 True b6 b7)
      else c)"

definition upper_char :: "char \<Rightarrow> char" where
  "upper_char c =
     (if is_ascii_lower c
      then (case c of Char b0 b1 b2 b3 b4 b5 b6 b7 \<Rightarrow> Char b0 b1 b2 b3 b4 False b6 b7)
      else c)"

text \<open>\<^verbatim>\<open>str.lower()\<close>, \<^verbatim>\<open>str.upper()\<close> and \<^verbatim>\<open>str.capitalize()\<close> (first character
  upper case, the rest lower case).\<close>

definition py_lower :: "string \<Rightarrow> string" where
  "py_lower s = map lower_char s"

definition py_upper :: "string \<Rightarrow> string" where
  "py_upper s = map upper_char s"

definition py_capitalize :: "string \<Rightarrow> string" where
  "py_capitalize s = (case s of [] \<Rightarrow> [] | c # cs \<Rightarrow> upper_char c # map lower_char cs)"

text \<open>\<^verbatim>\<open>p in s\<close> for strings: \<open>p\<close> occurs in \<open>s\<close> as a contiguous substring.\<close>

fun py_in :: "string \<Rightarrow> string \<Rightarrow> bool" where
  "py_in p [] = (p = [])"
| "py_in p (c # cs) = (prefix p (c # cs) \<or> py_in p cs)"

text \<open>\<^verbatim>\<open>s.replace(old, new)\<close>: the occurrences of \<open>old\<close> are found from the left and do
  not overlap; the text that a replacement produces is not scanned again. For the empty
  \<open>old\<close> Python puts \<open>new\<close> before every character and at the end.\<close>

fun replace_scan :: "string \<Rightarrow> string \<Rightarrow> string \<Rightarrow> string" where
  "replace_scan old new [] = []"
| "replace_scan old new (c # cs) =
     (if prefix old (c # cs) then new @ replace_scan old new (drop (length old - 1) cs)
      else c # replace_scan old new cs)"

definition py_replace :: "string \<Rightarrow> string \<Rightarrow> string \<Rightarrow> string" where
  "py_replace s old new =
     (if old = [] then new @ concat (map (\<lambda>c. c # new) s) else replace_scan old new s)"

text \<open>\<^verbatim>\<open>s.strip()\<close>: the ASCII white space of \<^verbatim>\<open>str.isspace\<close> (tab to carriage
  return, the four separators 28 to 31, the space) is dropped at both ends.\<close>

definition is_space :: "char \<Rightarrow> bool" where
  "is_space c = (let n = (of_char c :: nat) in (9 \<le> n \<and> n \<le> 13) \<or> (28 \<le> n \<and> n \<le> 32))"

definition py_strip :: "string \<Rightarrow> string" where
  "py_strip s = rev (dropWhile is_space (rev (dropWhile is_space s)))"

text \<open>\<^verbatim>\<open>sep.join(parts)\<close>.\<close>

fun py_join :: "'a list \<Rightarrow> 'a list list \<Rightarrow> 'a list" where
  "py_join sep [] = []"
| "py_join sep [x] = x"
| "py_join sep (x # y # ys) = x @ sep @ py_join sep (y # ys)"

text \<open>\<^verbatim>\<open>str(n)\<close> for an integer: its decimal digits, with a minus sign when negative.\<close>

definition digit_char :: "nat \<Rightarrow> char" where
  "digit_char d = ''0123456789'' ! d"

function str_nat :: "nat \<Rightarrow> string" where
  "str_nat n = (if n < 10 then [digit_char n] else str_nat (n div 10) @ [digit_char (n mod 10)])"
  by pat_completeness auto
termination
  by (relation "measure id") auto

declare str_nat.simps [simp del]

definition str_int :: "int \<Rightarrow> string" where
  "str_int i = (if i < 0 then CHR ''-'' # str_nat (nat (- i)) else str_nat (nat i))"

section \<open>The database error handler (\<^verbatim>\<open>services/logging_service.py\<close>)\<close>

text \<open>What the handler reads of an exception: the name of its class
  (\<^verbatim>\<open>type(error).__name__\<close>) and its message (\<^verbatim>\<open>str(error)\<close>).\<close>

record py_exception =
  exc_type :: string
  exc_message :: string

text \<open>\<^verbatim>\<open>DatabaseErrorHandler\<close>: the retry counter, its bound and the base delay in
  seconds. \<^verbatim>\<open>__init__\<close> sets them to 0, 3 and 1.0.\<close>

record database_error_handler =
  retry_count :: int
  max_retries :: int
  retry_delay :: real

definition DatabaseErrorHandler_init :: database_error_handler where
  "DatabaseErrorHandler_init = \<lparr>retry_count = 0, max_retries = 3, retry_delay = 1\<rparr>"

definition recoverable_errors :: "string list" where
  "recoverable_errors = [''OperationalError'', ''DisconnectionError'', ''TimeoutError'', ''DatabaseError'']"

definition recoverable_indicators :: "string list" where
  "recoverable_indicators = [''connection'', ''timeout'', ''network'', ''temporary'', ''retry'']"

definition is_recoverable_error :: "py_exception \<Rightarrow> bool" where
  "is_recoverable_error error =
     (let error_name = exc_type error; error_str = py_lower (exc_message error)
      in if error_name \<in> set recoverable_errors then True
         else list_ex (\<lambda>indicator. py_in indicator error_str) recoverable_indicators)"

definition connection_indicators :: "string list" where
  "connection_indicators =
     [''connection'', ''connect'', ''network'', ''host'', ''server'', ''unreachable'', ''refused'']"

definition is_timeout_error :: "py_exception \<Rightarrow> bool" where
  "is_timeout_error error =
     (let error_str = py_lower (exc_message error)
      in py_in ''timeout'' error_str \<or> py_in ''time out'' error_str)"

definition is_connection_error :: "py_exception \<Rightarrow> bool" where
  "is_connection_error error =
     (let error_str = py_lower (exc_message error)
      in if py_in ''timeout'' error_str \<or> py_in ''time out'' error_str then False
         else list_ex (\<lambda>indicator. py_in indicator error_str) connection_indicators)"

definition constraint_indicators :: "string list" where
  "constraint_indicators =
     [''constraint'', ''unique'', ''foreign key'', ''check constraint'', ''not null'', ''primary key'']"

definition is_constraint_error :: "py_exception \<Rightarrow> bool" where
  "is_constraint_error error =
     (let error_str = py_lower (exc_message error)
      in list_ex (\<lambda>indicator. py_in indicator error_str) constraint_indicators)"

definition is_integrity_error :: "py_exception \<Rightarrow> bool" where
  "is_integrity_error error = (exc_type error \<in> set [''IntegrityError'', ''DataError''])"

text \<open>\<^verbatim>\<open>handle_database_error\<close> builds the \<^verbatim>\<open>error_info\<close> dictionary (the time stamp
  is left out). The action tag is the classification of the exception: the first test
  of the chain that holds decides it. The flag \<open>recoverable\<close> is computed apart from the
  tag, by \<open>is_recoverable_error\<close>.\<close>

record error_info =
  error_type :: string
  operation_name :: string
  seen_retry_count :: int
  recoverable :: bool
  action_taken :: string

definition handle_database_error ::
  "database_error_handler \<Rightarrow> py_exception \<Rightarrow> string \<Rightarrow> error_info" where
  "handle_database_error self error operation =
     \<lparr>error_type = exc_type error,
      operation_name = operation,
      seen_retry_count = retry_count self,
      recoverable = is_recoverable_error error,
      action_taken =
        (if is_timeout_error error then ''timeout_retry''
         else if is_connection_error error then ''connection_retry''
         else if is_constraint_error error then ''constraint_violation''
         else if is_integrity_error error then ''integrity_violation''
         else ''unknown_error'')\<rparr>"

definition should_retry :: "database_error_handler \<Rightarrow> py_exception \<Rightarrow> bool" where
  "should_retry self error =
     (if retry_count self \<ge> max_retries self then False else is_recoverable_error error)"

definition increment_retry :: "database_error_handler \<Rightarrow> database_error_handler" where
  "increment_retry self = self\<lparr>retry_count := retry_count self + 1\<rparr>"

definition reset_retry_count :: "database_error_handler \<Rightarrow> database_error_handler" where
  "reset_retry_count self = self\<lparr>retry_count := 0\<rparr>"

section \<open>The retry loop (\<^verbatim>\<open>database.py\<close>)\<close>

text \<open>
  \<^verbatim>\<open>execute_with_retry(operation, operation_name, **kwargs)\<close>. The operation is a
  callable with effects of its own, so it is a step on a state \<open>'s\<close> that returns the
  exception it raised or its result. \<^verbatim>\<open>get_db_error_handler()\<close> returns the one handler
  of the process, created on first use and kept in a module variable: the loop reads
  and writes that object, so the handler is an argument and a result here, and the
  handler a call leaves behind is the handler the next call starts with. The calls of
  \<^verbatim>\<open>time.sleep\<close> are recorded, in order, in the list \<open>slept\<close>.
\<close>

type_synonym ('s, 'r) operation = "'s \<Rightarrow> (py_exception + 'r) \<times> 's"

function execute_with_retry ::
  "('s, 'r) operation \<Rightarrow> database_error_handler \<Rightarrow> 's \<Rightarrow> real list
     \<Rightarrow> (py_exception + 'r) \<times> database_error_handler \<times> 's \<times> real list" where
  "execute_with_retry operation error_handler s slept =
     (case operation s of
        (Inr result, s') \<Rightarrow> (Inr result, reset_retry_count error_handler, s', slept)
      | (Inl e, s') \<Rightarrow>
          (if should_retry error_handler e then
             (let h = increment_retry error_handler;
                  delay = retry_delay h * of_int (retry_count h)
              in execute_with_retry operation h s' (slept @ [delay]))
           else (Inl e, error_handler, s', slept)))"
  by pat_completeness auto
termination
  by (relation "measure (\<lambda>(operation, h, s, slept). nat (max_retries h - retry_count h))")
     (auto simp: should_retry_def increment_retry_def split: if_splits)

declare execute_with_retry.simps [simp del]

section \<open>Python text as code points\<close>

text \<open>
  Where the code counts characters with \<^verbatim>\<open>len\<close> or asks \<^verbatim>\<open>str.isdigit\<close>, a \<^verbatim>\<open>str\<close> is the
  list of its Unicode code points, and \<open>ustr\<close> gives the \<^verbatim>\<open>str\<close> of an ASCII literal.
\<close>

type_synonym py_str = "nat list"

definition ustr :: "string \<Rightarrow> py_str" where
  "ustr s = map of_char s"

text \<open>\<^verbatim>\<open>str.isdigit\<close> on one character. In the ASCII range the digits are \<open>0\<close> to \<open>9\<close>.
  Beyond it the answer is a property of the character in the Unicode database of the
  Python runtime (superscript digits, the digits of other scripts, ...): that table is
  the argument \<open>ucd\<close>.\<close>

definition str_isdigit :: "(nat \<Rightarrow> bool) \<Rightarrow> nat \<Rightarrow> bool" where
  "str_isdigit ucd c = (if c < 128 then 48 \<le> c \<and> c \<le> 57 else ucd c)"

text \<open>\<^verbatim>\<open>str.encode()\<close>: the UTF-8 bytes of the text. A surrogate code point has no
  encoding, and Python raises \<^verbatim>\<open>UnicodeEncodeError\<close>; a \<^verbatim>\<open>str\<close> holds no number beyond
  \<open>0x10FFFF\<close>.\<close>

definition utf8_encode_char :: "nat \<Rightarrow> string option" where
  "utf8_encode_char c =
     (if c < 0x80 then Some [char_of c]
      else if c < 0x800 then Some [char_of (0xC0 + c div 64), char_of (0x80 + c mod 64)]
      else if 0xD800 \<le> c \<and> c \<le> 0xDFFF then None
      else if c < 0x10000 then
        Some [char_of (0xE0 + c div 4096), char_of (0x80 + c div 64 mod 64),
              char_of (0x80 + c mod 64)]
      else if c < 0x110000 then
        Some [char_of (0xF0 + c div 262144), char_of (0x80 + c div 4096 mod 64),
              char_of (0x80 + c div 64 mod 64), char_of (0x80 + c mod 64)]
      else None)"

definition unicode_encode_error :: py_exception where
  "unicode_encode_error =
     \<lparr>exc_type = ''UnicodeEncodeError'', exc_message = ''surrogates not allowed''\<rparr>"

fun utf8_encode :: "py_str \<Rightarrow> py_exception + string" where
  "utf8_encode [] = Inr []"
| "utf8_encode (c # cs) =
     (case utf8_encode_char c of
        None \<Rightarrow> Inl unicode_encode_error
      | Some bs \<Rightarrow> (case utf8_encode cs of Inl e \<Rightarrow> Inl e | Inr rest \<Rightarrow> Inr (bs @ rest)))"

section \<open>The encryption service (\<^verbatim>\<open>services/encryption_service.py\<close>)\<close>

text \<open>
  The service holds a Fernet instance of the \<^verbatim>\<open>cryptography\<close> package and calls the
  standard library's base64 and UTF-8 codecs. The record below holds what the service
  gets from them and the model does not compute: the block encryption of AES and the
  MAC under the keys of the instance, a 128 bit and a 256 bit number each, and the
  outcomes of \<^verbatim>\<open>base64.urlsafe_b64decode\<close>, of \<^verbatim>\<open>Fernet.decrypt\<close> and of \<^verbatim>\<open>bytes.decode\<close>,
  each of which can raise.
\<close>

record encryption_service =
  aes_encrypt_block :: "nat \<Rightarrow> nat"
  hmac_sha256 :: "string \<Rightarrow> nat"
  urlsafe_b64decode :: "string \<Rightarrow> py_exception + string"
  fernet_decrypt :: "string \<Rightarrow> py_exception + string"
  bytes_decode :: "string \<Rightarrow> py_exception + py_str"

text \<open>\<^verbatim>\<open>base64.urlsafe_b64encode\<close> (RFC 4648, the alphabet with \<open>-\<close> and \<open>_\<close>): three
  bytes become four characters, and a last group of one or two bytes is padded with
  \<open>=\<close>.\<close>

definition b64_alphabet :: string where
  "b64_alphabet = ''ABCDEFGHIJKLMNOPQRSTUVWXYZabcdefghijklmnopqrstuvwxyz0123456789-_''"

definition b64_char :: "nat \<Rightarrow> char" where
  "b64_char i = b64_alphabet ! i"

fun urlsafe_b64encode :: "string \<Rightarrow> string" where
  "urlsafe_b64encode [] = []"
| "urlsafe_b64encode [a] =
     (let n = of_char a * 65536
      in [b64_char (n div 262144), b64_char (n div 4096 mod 64), CHR ''='', CHR ''=''])"
| "urlsafe_b64encode [a, b] =
     (let n = of_char a * 65536 + of_char b * 256
      in [b64_char (n div 262144), b64_char (n div 4096 mod 64), b64_char (n div 64 mod 64),
          CHR ''=''])"
| "urlsafe_b64encode (a # b # c # rest) =
     (let n = of_char a * 65536 + of_char b * 256 + of_char c
      in [b64_char (n div 262144), b64_char (n div 4096 mod 64), b64_char (n div 64 mod 64),
          b64_char (n mod 64)] @ urlsafe_b64encode rest)"

text \<open>
  Modelled from the spec: \<^verbatim>\<open>Fernet.encrypt\<close> of the \<^verbatim>\<open>cryptography\<close> package, which is
  not in the repository. The spec asks of it an authenticated symmetric encryption
  that uses fresh randomness in every call and whose output carries a nonce and an
  authentication tag. The model is the token of the Fernet format, which is of this
  kind: the byte \<open>0x80\<close>, the time in 8 bytes, the nonce (an initialisation vector of 16
  random bytes), the plaintext padded to whole blocks of 16 bytes (PKCS7) and encrypted
  with AES in CBC mode, and a tag of 32 bytes (HMAC-SHA256 of all that precedes it),
  the whole in URL-safe base64. The time \<open>current_time\<close> and the random number \<open>iv\<close> of
  the call are arguments. The four definitions that follow are its parts: a number in
  \<open>k\<close> bytes (most significant first) and back, the padding, and the cut into blocks.
\<close>

definition be_bytes :: "nat \<Rightarrow> nat \<Rightarrow> string" where
  "be_bytes k n = map (\<lambda>i. char_of (n div 256 ^ (k - 1 - i) mod 256)) [0..<k]"

definition bytes_to_nat :: "string \<Rightarrow> nat" where
  "bytes_to_nat bs = foldl (\<lambda>acc b. acc * 256 + of_char b) 0 bs"

definition pkcs7_pad :: "string \<Rightarrow> string" where
  "pkcs7_pad data = (let n = 16 - length data mod 16 in data @ replicate n (char_of n))"

function blocks_of_16 :: "string \<Rightarrow> string list" where
  "blocks_of_16 bs = (if bs = [] then [] else take 16 bs # blocks_of_16 (drop 16 bs))"
  by pat_completeness auto
termination
  by (relation "measure length") auto

declare blocks_of_16.simps [simp del]

text \<open>Modelled from the spec: the CBC mode of the same library. Every block is combined
  with the ciphertext block before it (the initialisation vector for the first) and
  then encrypted; a block is a number of 128 bits.\<close>

fun cbc_encrypt :: "(nat \<Rightarrow> nat) \<Rightarrow> nat \<Rightarrow> nat list \<Rightarrow> nat list" where
  "cbc_encrypt block_encrypt previous [] = []"
| "cbc_encrypt block_encrypt previous (p # ps) =
     (let c = block_encrypt (p XOR previous) mod 2 ^ 128
      in c # cbc_encrypt block_encrypt c ps)"

text \<open>Modelled from the spec: \<^verbatim>\<open>Fernet.encrypt(data)\<close> itself, the token for the bytes
  \<open>data\<close>.\<close>

definition fernet_encrypt :: "encryption_service \<Rightarrow> nat \<Rightarrow> nat \<Rightarrow> string \<Rightarrow> string" where
  "fernet_encrypt self current_time iv data =
     (let padded = pkcs7_pad data;
          ciphertext = concat (map (be_bytes 16)
                         (cbc_encrypt (aes_encrypt_block self) (iv mod 2 ^ 128)
                            (map bytes_to_nat (blocks_of_16 padded))));
          basic_parts = [CHR 0x80] @ be_bytes 8 current_time @ be_bytes 16 iv @ ciphertext;
          hmac = be_bytes 32 (hmac_sha256 self basic_parts)
      in urlsafe_b64encode (basic_parts @ hmac))"

definition failed_to_encrypt :: py_exception where
  "failed_to_encrypt = \<lparr>exc_type = ''ValueError'', exc_message = ''Failed to encrypt data''\<rparr>"

definition failed_to_decrypt :: py_exception where
  "failed_to_decrypt = \<lparr>exc_type = ''ValueError'', exc_message = ''Failed to decrypt data''\<rparr>"

text \<open>\<^verbatim>\<open>encrypt\<close> and \<^verbatim>\<open>decrypt\<close>: an empty argument is returned as it is; any exception
  inside the \<^verbatim>\<open>try\<close> block is replaced by the service's \<^verbatim>\<open>ValueError\<close>. In \<^verbatim>\<open>encrypt\<close>
  the text is encoded, the token is encoded in base64 once more, and that ASCII text is
  the result; the encoding of the text is the one step that can raise.\<close>

definition encrypt ::
  "encryption_service \<Rightarrow> nat \<Rightarrow> nat \<Rightarrow> py_str \<Rightarrow> py_exception + py_str" where
  "encrypt self current_time iv data =
     (if data = [] then Inr data
      else (case utf8_encode data of
              Inl e \<Rightarrow> Inl failed_to_encrypt
            | Inr plain \<Rightarrow>
                (let encrypted_data = fernet_encrypt self current_time iv plain
                 in Inr (ustr (urlsafe_b64encode encrypted_data)))))"

definition decrypt :: "encryption_service \<Rightarrow> py_str \<Rightarrow> py_exception + py_str" where
  "decrypt self encrypted_data =
     (if encrypted_data = [] then Inr encrypted_data
      else (case utf8_encode encrypted_data of
              Inl e \<Rightarrow> Inl failed_to_decrypt
            | Inr encoded \<Rightarrow>
                (case urlsafe_b64decode self encoded of
                   Inl e \<Rightarrow> Inl failed_to_decrypt
                 | Inr decoded_data \<Rightarrow>
                     (case fernet_decrypt self decoded_data of
                        Inl e \<Rightarrow> Inl failed_to_decrypt
                      | Inr decrypted_data \<Rightarrow>
                          (case bytes_decode self decrypted_data of
                             Inl e \<Rightarrow> Inl failed_to_decrypt
                           | Inr plain \<Rightarrow> Inr plain)))))"

definition encrypt_card_number ::
  "(nat \<Rightarrow> bool) \<Rightarrow> encryption_service \<Rightarrow> nat \<Rightarrow> nat \<Rightarrow> py_str \<Rightarrow> py_exception + py_str" where
  "encrypt_card_number ucd self current_time iv card_number =
     (let clean_number = filter (str_isdigit ucd) card_number
      in encrypt self current_time iv clean_number)"

definition decrypt_card_number :: "encryption_service \<Rightarrow> py_str \<Rightarrow> py_exception + py_str" where
  "decrypt_card_number self encrypted_card_number = decrypt self encrypted_card_number"

text \<open>\<^verbatim>\<open>[masked[i:i+4] for i in range(0, len(masked), 4)]\<close>: the text cut into
  pieces of four characters, the last one shorter when the length is no multiple of 4.\<close>

function slices_of_4 :: "py_str \<Rightarrow> py_str list" where
  "slices_of_4 masked = (if masked = [] then [] else take 4 masked # slices_of_4 (drop 4 masked))"
  by pat_completeness auto
termination
  by (relation "measure length") auto

declare slices_of_4.simps [simp del]

text \<open>\<^verbatim>\<open>mask_card_number\<close>. The whole body stands in a \<^verbatim>\<open>try\<close> block whose handler
  returns the placeholder; the one statement of the body that can raise is the
  decryption. \<^verbatim>\<open>len\<close> counts the characters of the text, and the digits are the
  characters that \<^verbatim>\<open>str.isdigit\<close> accepts.\<close>

definition mask_card_number :: "(nat \<Rightarrow> bool) \<Rightarrow> encryption_service \<Rightarrow> py_str \<Rightarrow> py_str" where
  "mask_card_number ucd self card_number =
     (case (if length card_number > 20 then decrypt_card_number self card_number
            else Inr card_number) of
        Inl e \<Rightarrow> ustr ''**** **** **** ****''
      | Inr decrypted \<Rightarrow>
          (let clean_number = filter (str_isdigit ucd) decrypted in
           if length clean_number < 4 then replicate (length clean_number) (of_char CHR ''*'')
           else
             (let masked = replicate (length clean_number - 4) (of_char CHR ''*'')
                             @ drop (length clean_number - 4) clean_number;
                  formatted = py_join (ustr '' '') (slices_of_4 masked)
              in formatted)))"

text \<open>\<^verbatim>\<open>sanitize_input\<close>: for every pattern of the list, in order, its lower case, its
  upper case and its capitalised form are replaced by the empty string; then the five
  characters are replaced by their entities, the ampersand last; then the result is
  stripped.\<close>

definition dangerous_patterns :: "string list" where
  "dangerous_patterns =
     [''<script'', ''</script>'',
      ''javascript:'', ''vbscript:'',
      ''onload='', ''onerror='', ''onclick='',
      ''eval('', ''exec('',
      ''DROP TABLE'', ''DELETE FROM'', ''INSERT INTO'', ''UPDATE SET'',
      ''--'', ''/*'', ''*/'',
      ''UNION SELECT'', ''OR 1=1'', ''AND 1=1'']"

definition remove_pattern :: "string \<Rightarrow> string \<Rightarrow> string" where
  "remove_pattern sanitized pattern =
     py_replace (py_replace (py_replace sanitized (py_lower pattern) [])
                   (py_upper pattern) [])
       (py_capitalize pattern) []"

definition escape_special :: "string \<Rightarrow> string" where
  "escape_special sanitized =
     py_replace (py_replace (py_replace (py_replace (py_replace sanitized
        ''<'' ''&lt;'') ''>'' ''&gt;'') [CHR 0x22] ''&quot;'') [CHR 0x27] ''&#x27;'')
        ''&'' ''&amp;''"

definition sanitize_input :: "string \<Rightarrow> string" where
  "sanitize_input input_data =
     (if input_data = [] then input_data
      else py_strip (escape_special (foldl remove_pattern input_data dangerous_patterns)))"

section \<open>Requests, responses and JSON bodies\<close>

text \<open>The JSON content of a response. An object keeps its members in the order of the
  dictionary literal that the source writes.\<close>

datatype json =
    JNull
  | JBool bool
  | JInt int
  | JStr string
  | JArr "json list"
  | JObj "(string \<times> json) list"

text \<open>\<^verbatim>\<open>body[key]\<close> on the parsed body of a response.\<close>

definition json_get :: "string \<Rightarrow> json \<Rightarrow> json option" where
  "json_get key j = (case j of JObj members \<Rightarrow> map_of members key | _ \<Rightarrow> None)"

text \<open>What the middleware reads of a request: the path, the method, the headers, the
  peer's address when there is one, and \<^verbatim>\<open>request.state.correlation_id\<close> when it was
  set.\<close>

record request =
  url_path :: string
  http_method :: string
  request_headers :: "string \<rightharpoonup> string"
  client_host :: "string option"
  state_correlation_id :: "string option"

text \<open>A response: the status, the JSON content and the headers that the code sets.\<close>

record response =
  status_code :: int
  content :: json
  headers :: "string \<rightharpoonup> string"

section \<open>The error handler (\<^verbatim>\<open>middleware/error_handler.py\<close>)\<close>

text \<open>
  The value of \<^verbatim>\<open>str(uuid.uuid4())\<close> and of the clock are arguments: \<open>uuid4\<close> is the
  identifier drawn by the call, \<open>now\<close> the time stamp it formats.

  \<^verbatim>\<open>_create_error_response\<close>: the envelope, with the member \<open>details\<close> added when the
  argument is a list that is not empty.
\<close>

definition create_error_response ::
  "string \<Rightarrow> int \<Rightarrow> string \<Rightarrow> string \<Rightarrow> string \<Rightarrow> request \<Rightarrow> json list option \<Rightarrow> response" where
  "create_error_response now status error_code message correlation_id req details =
     (let error_members =
            [(''code'', JStr error_code),
             (''message'', JStr message),
             (''correlation_id'', JStr correlation_id),
             (''timestamp'', JStr now),
             (''path'', JStr (url_path req)),
             (''method'', JStr (http_method req))];
          error_members =
            (case details of
               None \<Rightarrow> error_members
             | Some ds \<Rightarrow> if ds \<noteq> [] then error_members @ [(''details'', JArr ds)]
                         else error_members)
      in \<lparr>status_code = status,
          content = JObj [(''error'', JObj error_members)],
          headers = [''X-Correlation-ID'' \<mapsto> correlation_id]\<rparr>)"

text \<open>What the handler chain below the middleware can raise, as far as the middleware
  tells it apart: an \<^verbatim>\<open>SQLAlchemyError\<close>, an \<^verbatim>\<open>HTTPException\<close> (status and detail), or
  any other exception.\<close>

datatype raised =
    SQLAlchemyError py_exception
  | HTTPException int string
  | OtherException py_exception

text \<open>\<^verbatim>\<open>ErrorHandlerMiddleware.dispatch\<close>: a new identifier is stored in the state of the
  request, and the chain below is called with that request.\<close>

definition error_handler_dispatch ::
  "string \<Rightarrow> string \<Rightarrow> request \<Rightarrow> (request \<Rightarrow> raised + response) \<Rightarrow> raised + response" where
  "error_handler_dispatch uuid4 now req call_next =
     (let correlation_id = uuid4;
          req = req\<lparr>state_correlation_id := Some correlation_id\<rparr>
      in case call_next req of
           Inr resp \<Rightarrow>
             Inr (resp\<lparr>headers := (headers resp)(''X-Correlation-ID'' \<mapsto> correlation_id)\<rparr>)
         | Inl (SQLAlchemyError e) \<Rightarrow>
             Inr (create_error_response now 500 ''DATABASE_ERROR''
                    ''Error interno del servidor - problema de base de datos''
                    correlation_id req None)
         | Inl (HTTPException status detail) \<Rightarrow> Inl (HTTPException status detail)
         | Inl (OtherException e) \<Rightarrow>
             Inr (create_error_response now 500 ''INTERNAL_SERVER_ERROR''
                    ''Error interno del servidor'' correlation_id req None))"


text \<open>One entry of \<^verbatim>\<open>exc.errors()\<close>: the location, a tuple of names and indices, the
  message and the type of the error.\<close>

datatype loc_item = LocName string | LocIndex int

record validation_error =
  loc :: "loc_item list"
  msg :: string
  error_kind :: string

definition str_loc :: "loc_item \<Rightarrow> string" where
  "str_loc item = (case item of LocName name \<Rightarrow> name | LocIndex i \<Rightarrow> str_int i)"

definition format_validation_error :: "validation_error \<Rightarrow> json" where
  "format_validation_error error =
     (let field_path = py_join '' -> '' (map str_loc (loc error))
      in JObj [(''field'', JStr field_path),
               (''message'', JStr (msg error)),
               (''type'', JStr (error_kind error))])"

text \<open>\<^verbatim>\<open>validation_exception_handler\<close>. The message is the source's Spanish sentence,
  whose accented letter is two bytes.\<close>

definition validation_exception_handler ::
  "string \<Rightarrow> string \<Rightarrow> request \<Rightarrow> validation_error list \<Rightarrow> response" where
  "validation_exception_handler uuid4 now req exc_errors =
     (let correlation_id = (case state_correlation_id req of Some c \<Rightarrow> c | None \<Rightarrow> uuid4);
          formatted_errors = map format_validation_error exc_errors;
          error_response =
            JObj [(''error'', JObj
              [(''code'', JStr ''VALIDATION_ERROR''),
               (''message'', JStr (''Los datos proporcionados no son v'' @ [CHR 0xC3, CHR 0xA1]
                                   @ ''lidos'')),
               (''details'', JArr formatted_errors),
               (''correlation_id'', JStr correlation_id),
               (''timestamp'', JStr now),
               (''path'', JStr (url_path req)),
               (''method'', JStr (http_method req))])]
      in \<lparr>status_code = 422,
          content = error_response,
          headers = [''X-Correlation-ID'' \<mapsto> correlation_id]\<rparr>)"

section \<open>Password verification (\<^verbatim>\<open>services/auth_service.py\<close>)\<close>


section \<open>The rate limiter (\<^verbatim>\<open>middleware/rate_limit.py\<close>)\<close>

text \<open>
  \<^verbatim>\<open>RateLimitMiddleware\<close>: the four settings, the three dictionaries from a key to the
  time stamps recorded under it (a \<^verbatim>\<open>defaultdict(deque)\<close> each, oldest time stamp first)
  and the time of the last sweep. Times are seconds, as \<^verbatim>\<open>time.time()\<close> returns them;
  the time of a call is an argument.
\<close>

record rate_limiter =
  calls_per_minute :: int
  calls_per_hour :: int
  burst_limit :: int
  cleanup_interval :: int
  minute_requests :: "string \<rightharpoonup> real list"
  hour_requests :: "string \<rightharpoonup> real list"
  burst_requests :: "string \<rightharpoonup> real list"
  last_cleanup :: real

text \<open>\<^verbatim>\<open>d[key]\<close> on a \<^verbatim>\<open>defaultdict(deque)\<close> gives the empty deque for a new key (and
  stores it); \<^verbatim>\<open>d.get(key, [])\<close> gives the same value and stores nothing.\<close>

definition window :: "(string \<rightharpoonup> real list) \<Rightarrow> string \<Rightarrow> real list" where
  "window d key = (case d key of None \<Rightarrow> [] | Some q \<Rightarrow> q)"

text \<open>\<^verbatim>\<open>while q and current_time - q[0] > horizon: q.popleft()\<close>.\<close>

definition evict :: "real \<Rightarrow> real \<Rightarrow> real list \<Rightarrow> real list" where
  "evict current_time horizon q = dropWhile (\<lambda>ts. current_time - ts > horizon) q"

definition get_client_ip :: "request \<Rightarrow> string" where
  "get_client_ip req =
     (case request_headers req ''X-Forwarded-For'' of
        Some forwarded_for \<Rightarrow>
          if forwarded_for \<noteq> [] then py_strip (takeWhile (\<lambda>c. c \<noteq> CHR '','') forwarded_for)
          else (case request_headers req ''X-Real-IP'' of
                  Some real_ip \<Rightarrow>
                    if real_ip \<noteq> [] then real_ip
                    else (case client_host req of Some host \<Rightarrow> host | None \<Rightarrow> ''unknown'')
                | None \<Rightarrow> (case client_host req of Some host \<Rightarrow> host | None \<Rightarrow> ''unknown''))
      | None \<Rightarrow>
          (case request_headers req ''X-Real-IP'' of
             Some real_ip \<Rightarrow>
               if real_ip \<noteq> [] then real_ip
               else (case client_host req of Some host \<Rightarrow> host | None \<Rightarrow> ''unknown'')
           | None \<Rightarrow> (case client_host req of Some host \<Rightarrow> host | None \<Rightarrow> ''unknown'')))"

definition sensitive_patterns :: "string list" where
  "sensitive_patterns = [''/auth/login'', ''/auth/logout'', ''/auth/me'']"

definition is_sensitive_endpoint :: "string \<Rightarrow> bool" where
  "is_sensitive_endpoint path = list_ex (\<lambda>pattern. py_in pattern path) sensitive_patterns"

text \<open>\<^verbatim>\<open>_is_rate_limited\<close>. Each check first looks its deque up (which creates it) and
  drops the stale time stamps from its front, then compares its length with the limit;
  the first limit that is reached ends the function, so the deques of the later checks
  stay as they were.\<close>

definition is_rate_limited ::
  "rate_limiter \<Rightarrow> string \<Rightarrow> string \<Rightarrow> real \<Rightarrow> bool \<times> rate_limiter" where
  "is_rate_limited self client_ip path current_time =
     (let burst_key = client_ip @ '':burst'';
          burst = evict current_time 10 (window (burst_requests self) burst_key);
          self = self\<lparr>burst_requests := (burst_requests self)(burst_key \<mapsto> burst)\<rparr>
      in if int (length burst) \<ge> burst_limit self then (True, self)
         else
           (let minute_key = client_ip @ '':minute'';
                minute = evict current_time 60 (window (minute_requests self) minute_key);
                self = self\<lparr>minute_requests := (minute_requests self)(minute_key \<mapsto> minute)\<rparr>
            in if int (length minute) \<ge> calls_per_minute self then (True, self)
               else
                 (let hour_key = client_ip @ '':hour'';
                      hour = evict current_time 3600 (window (hour_requests self) hour_key);
                      self = self\<lparr>hour_requests := (hour_requests self)(hour_key \<mapsto> hour)\<rparr>
                  in if int (length hour) \<ge> calls_per_hour self then (True, self)
                     else if is_sensitive_endpoint path then
                       (let auth_limit = min 10 (calls_per_minute self div 6)
                        in if int (length minute) \<ge> auth_limit then (True, self)
                           else (False, self))
                     else (False, self))))"

definition record_request :: "rate_limiter \<Rightarrow> string \<Rightarrow> real \<Rightarrow> rate_limiter" where
  "record_request self client_ip current_time =
     self\<lparr>burst_requests := (burst_requests self)
              (client_ip @ '':burst'' \<mapsto>
                 window (burst_requests self) (client_ip @ '':burst'') @ [current_time]),
          minute_requests := (minute_requests self)
              (client_ip @ '':minute'' \<mapsto>
                 window (minute_requests self) (client_ip @ '':minute'') @ [current_time]),
          hour_requests := (hour_requests self)
              (client_ip @ '':hour'' \<mapsto>
                 window (hour_requests self) (client_ip @ '':hour'') @ [current_time])\<rparr>"

text \<open>\<^verbatim>\<open>_cleanup_old_requests\<close>: every deque loses its stale time stamps, and a key whose
  deque is then empty is deleted.\<close>

definition sweep :: "real \<Rightarrow> real \<Rightarrow> (string \<rightharpoonup> real list) \<Rightarrow> (string \<rightharpoonup> real list)" where
  "sweep current_time horizon d =
     (\<lambda>key. case d key of
              None \<Rightarrow> None
            | Some q \<Rightarrow> (let q = evict current_time horizon q in if q = [] then None else Some q))"

definition cleanup_old_requests :: "rate_limiter \<Rightarrow> real \<Rightarrow> rate_limiter" where
  "cleanup_old_requests self current_time =
     self\<lparr>burst_requests := sweep current_time 10 (burst_requests self),
          minute_requests := sweep current_time 60 (minute_requests self),
          hour_requests := sweep current_time 3600 (hour_requests self)\<rparr>"

text \<open>\<^verbatim>\<open>_create_rate_limit_response\<close>. The identifier is the one in the state of the
  request, and the text \<open>unknown\<close> when the state has none. \<open>now\<close> is the formatted time.\<close>

definition create_rate_limit_response :: "string \<Rightarrow> string \<Rightarrow> request \<Rightarrow> response" where
  "create_rate_limit_response now client_ip req =
     (let correlation_id = (case state_correlation_id req of Some c \<Rightarrow> c | None \<Rightarrow> ''unknown'');
          error_response =
            JObj [(''error'', JObj
              [(''code'', JStr ''RATE_LIMIT_EXCEEDED''),
               (''message'', JStr (''Demasiadas solicitudes. Intente nuevamente m''
                                   @ [CHR 0xC3, CHR 0xA1] @ ''s tarde.'')),
               (''correlation_id'', JStr correlation_id),
               (''timestamp'', JStr now),
               (''path'', JStr (url_path req)),
               (''method'', JStr (http_method req))])];
          hdrs = [''X-Correlation-ID'' \<mapsto> correlation_id, ''Retry-After'' \<mapsto> ''60'']
      in \<lparr>status_code = 429, content = error_response, headers = hdrs\<rparr>)"

text \<open>\<^verbatim>\<open>int(x)\<close> on a float: truncation towards zero.\<close>

definition py_int :: "real \<Rightarrow> int" where
  "py_int x = (if x \<ge> 0 then \<lfloor>x\<rfloor> else \<lceil>x\<rceil>)"

definition add_rate_limit_headers ::
  "rate_limiter \<Rightarrow> response \<Rightarrow> string \<Rightarrow> real \<Rightarrow> response" where
  "add_rate_limit_headers self resp client_ip current_time =
     (let minute_count = int (length (window (minute_requests self) (client_ip @ '':minute'')));
          hour_count = int (length (window (hour_requests self) (client_ip @ '':hour'')));
          remaining_minute = max 0 (calls_per_minute self - minute_count);
          remaining_hour = max 0 (calls_per_hour self - hour_count);
          reset_time = py_int current_time + (60 - py_int current_time mod 60)
      in resp\<lparr>headers := (headers resp)
           (''X-RateLimit-Limit-Minute'' \<mapsto> str_int (calls_per_minute self),
            ''X-RateLimit-Remaining-Minute'' \<mapsto> str_int remaining_minute,
            ''X-RateLimit-Limit-Hour'' \<mapsto> str_int (calls_per_hour self),
            ''X-RateLimit-Remaining-Hour'' \<mapsto> str_int remaining_hour,
            ''X-RateLimit-Reset'' \<mapsto> str_int reset_time)\<rparr>)"

text \<open>\<^verbatim>\<open>RateLimitMiddleware.dispatch\<close>. \<open>current_time\<close> is the value of \<^verbatim>\<open>time.time()\<close>
  and \<open>now\<close> the formatted time of a rejection. A request that is limited is answered
  without \<open>call_next\<close>; an exception of \<open>call_next\<close> propagates after the request was
  recorded.\<close>

definition rate_limit_dispatch ::
  "rate_limiter \<Rightarrow> real \<Rightarrow> string \<Rightarrow> request \<Rightarrow> (request \<Rightarrow> raised + response)
     \<Rightarrow> (raised + response) \<times> rate_limiter" where
  "rate_limit_dispatch self current_time now req call_next =
     (let client_ip = get_client_ip req;
          self = (if current_time - last_cleanup self > real_of_int (cleanup_interval self)
                  then (cleanup_old_requests self current_time)\<lparr>last_cleanup := current_time\<rparr>
                  else self);
          (limited, self) = is_rate_limited self client_ip (url_path req) current_time
      in if limited then (Inr (create_rate_limit_response now client_ip req), self)
         else
           (let self = record_request self client_ip current_time
            in case call_next req of
                 Inl e \<Rightarrow> (Inl e, self)
               | Inr resp \<Rightarrow> (Inr (add_rate_limit_headers self resp client_ip current_time), self)))"

section \<open>Reading responses, and requests in a row\<close>

text \<open>\<^verbatim>\<open>response.json()["error"][key]\<close>, as the tests read a member of the envelope.\<close>

definition body_error_member :: "string \<Rightarrow> response \<Rightarrow> json option" where
  "body_error_member key resp =
     (case json_get ''error'' (content resp) of None \<Rightarrow> None | Some err \<Rightarrow> json_get key err)"


text \<open>The first step of \<open>rate_limit_dispatch\<close>, the sweep when it is due, under a name of
  its own.\<close>

definition swept :: "rate_limiter \<Rightarrow> real \<Rightarrow> rate_limiter" where
  "swept self current_time =
     (if current_time - last_cleanup self > real_of_int (cleanup_interval self)
      then (cleanup_old_requests self current_time)\<lparr>last_cleanup := current_time\<rparr>
      else self)"

text \<open>Requests that arrive one after the other at the rate limiter, each with the time
  of its arrival: the outcomes in order, and the limiter after the last one.\<close>

fun serve ::
  "rate_limiter \<Rightarrow> (request \<Rightarrow> raised + response) \<Rightarrow> (real \<times> string \<times> request) list
     \<Rightarrow> (raised + response) list \<times> rate_limiter" where
  "serve self call_next [] = ([], self)"
| "serve self call_next ((current_time, now, req) # rest) =
     (let (out, self) = rate_limit_dispatch self current_time now req call_next;
          (outs, self) = serve self call_next rest
      in (out # outs, self))"

section \<open>Inputs of the evaluations\<close>

text \<open>Exceptions as the handler can receive them: the operating system's error for an
  unreachable host, the store's error for a violated unique constraint on a table
  called \<^verbatim>\<open>retry_queue\<close>, a refused connection (the tests' example of a connection error)
  and the tests' transient failure.\<close>

definition no_route_to_host :: py_exception where
  "no_route_to_host = \<lparr>exc_type = ''OSError'', exc_message = ''[Errno 113] No route to host''\<rparr>"

definition unique_violation :: py_exception where
  "unique_violation =
     \<lparr>exc_type = ''IntegrityError'',
      exc_message = ''(sqlite3.IntegrityError) UNIQUE constraint failed: retry_queue.job_id''\<rparr>"

definition connection_refused :: py_exception where
  "connection_refused = \<lparr>exc_type = ''Exception'', exc_message = ''connection refused''\<rparr>"

definition temporary_failure :: py_exception where
  "temporary_failure = \<lparr>exc_type = ''Exception'', exc_message = ''temporary failure''\<rparr>"

text \<open>An operation that raises the same exception at every execution, and the tests'
  \<^verbatim>\<open>failing_operation\<close>, which raises at its first two executions and returns at the
  third. The state counts the executions.\<close>

definition always_raises :: "py_exception \<Rightarrow> (nat, unit) operation" where
  "always_raises e call_count = (Inl e, Suc call_count)"

definition failing_operation :: "(nat, string) operation" where
  "failing_operation call_count =
     (if Suc call_count < 3 then (Inl temporary_failure, Suc call_count)
      else (Inr ''success_test_operation'', Suc call_count))"

text \<open>A stand-in for the libraries behind the encryption service, for the evaluations: a
  block cipher and a MAC that return constants, a Fernet decryption that accepts the
  tokens with one fixed header and returns what follows it, and base64 and UTF-8
  decoders that accept everything, the latter reading each byte as one character. The
  table of \<^verbatim>\<open>str.isdigit\<close> holds the superscript digits of Latin-1 and the Arabic-Indic
  digits.\<close>

definition demo_service :: encryption_service where
  "demo_service =
     \<lparr>aes_encrypt_block = (\<lambda>block. 0),
      hmac_sha256 = (\<lambda>message. 0),
      urlsafe_b64decode = (\<lambda>s. Inr s),
      fernet_decrypt = (\<lambda>token. if prefix ''gAAAAAB'' token then Inr (drop 7 token)
                                else Inl \<lparr>exc_type = ''InvalidToken'', exc_message = []\<rparr>),
      bytes_decode = (\<lambda>b. Inr (ustr b))\<rparr>"

definition demo_ucd :: "nat \<Rightarrow> bool" where
  "demo_ucd c = (c = 0xB2 \<or> c = 0xB3 \<or> c = 0xB9 \<or> (0x660 \<le> c \<and> c \<le> 0x669))"


text \<open>A request of the tests' client, a handler's answer, a limiter with three calls per
  minute and no history, and a validation error for a missing field of the body.\<close>

definition test_limiter :: rate_limiter where
  "test_limiter = \<lparr>calls_per_minute = 3, calls_per_hour = 1000, burst_limit = 10, cleanup_interval = 300,
     minute_requests = Map.empty, hour_requests = Map.empty, burst_requests = Map.empty, last_cleanup = 0\<rparr>"

definition test_request :: request where
  "test_request = \<lparr>url_path = ''/test'', http_method = ''GET'', request_headers = Map.empty,
     client_host = Some ''testclient'', state_correlation_id = None\<rparr>"

definition ok_response :: response where
  "ok_response = \<lparr>status_code = 200, content = JObj [(''message'', JStr ''success'')], headers = Map.empty\<rparr>"

definition missing_username :: validation_error where
  "missing_username = \<lparr>loc = [LocName ''body'', LocName ''username''], msg = ''field required'',
     error_kind = ''value_error.missing''\<rparr>"






chapter \<open>Properties\<close>

lemmas py_string_simps =
  is_ascii_upper_def is_ascii_lower_def lower_char_def upper_char_def
  py_lower_def py_upper_def py_capitalize_def py_replace_def

lemmas classify_simps =
  handle_database_error_def is_recoverable_error_def is_timeout_error_def
  is_connection_error_def is_constraint_error_def is_integrity_error_def
  recoverable_errors_def recoverable_indicators_def connection_indicators_def
  constraint_indicators_def

section \<open>The retry loop, one step at a time\<close>

lemma execute_with_retry_success:
  "operation s = (Inr result, s') \<Longrightarrow>
   execute_with_retry operation h s slept = (Inr result, reset_retry_count h, s', slept)"
  by (subst execute_with_retry.simps) simp

lemma execute_with_retry_propagates:
  "operation s = (Inl e, s') \<Longrightarrow> \<not> should_retry h e \<Longrightarrow>
   execute_with_retry operation h s slept = (Inl e, h, s', slept)"
  by (subst execute_with_retry.simps) simp

lemma execute_with_retry_again:
  "operation s = (Inl e, s') \<Longrightarrow> should_retry h e \<Longrightarrow>
   execute_with_retry operation h s slept =
   execute_with_retry operation (increment_retry h) s'
     (slept @ [retry_delay h * of_int (retry_count h + 1)])"
  by (subst execute_with_retry.simps) (simp add: increment_retry_def Let_def)

text \<open>An exception that \<open>is_recoverable_error\<close> accepts, raised at every execution: from a
  counter of 0 and a bound of 3 the operation runs four times, the loop sleeps the base
  delay times 1, 2 and 3 in between, and the exception propagates with the counter left
  at 3.\<close>

lemma always_raises_recoverable:
  assumes "is_recoverable_error e" "retry_count h = 0" "max_retries h = 3"
  shows "execute_with_retry (always_raises e) h n slept =
         (Inl e, h\<lparr>retry_count := 3\<rparr>, n + 4,
          slept @ [retry_delay h * 1, retry_delay h * 2, retry_delay h * 3])"
  using assms
  by (simp add: execute_with_retry_again execute_with_retry_propagates
        always_raises_def should_retry_def increment_retry_def)

text \<open>An exception that \<open>is_recoverable_error\<close> rejects propagates at once, whatever the
  counter is.\<close>

lemma not_recoverable_propagates:
  "operation s = (Inl e, s') \<Longrightarrow> \<not> is_recoverable_error e \<Longrightarrow>
   execute_with_retry operation h s slept = (Inl e, h, s', slept)"
  by (simp add: execute_with_retry_propagates should_retry_def)

text \<open>When the loop returns a result, the handler is the one it was called with, its
  counter set to 0.\<close>

lemma execute_with_retry_result_resets:
  "execute_with_retry operation h s slept = (Inr v, h', s', slept') \<Longrightarrow>
   h' = h\<lparr>retry_count := 0\<rparr>"
proof (induction operation h s slept rule: execute_with_retry.induct)
  case (1 operation h s slept)
  show ?case
  proof (cases "operation s")
    case (Pair out s1)
    show ?thesis
    proof (cases out)
      case (Inr w)
      with Pair "1.prems" show ?thesis
        by (simp add: execute_with_retry_success reset_retry_count_def)
    next
      case (Inl e)
      show ?thesis
      proof (cases "should_retry h e")
        case False
        with Pair Inl "1.prems" show ?thesis
          by (simp add: execute_with_retry_propagates)
      next
        case True
        with Pair Inl "1.prems" have
          "execute_with_retry operation (increment_retry h) s1
             (slept @ [retry_delay (increment_retry h) * of_int (retry_count (increment_retry h))])
           = (Inr v, h', s', slept')"
          by (simp add: execute_with_retry_again increment_retry_def)
        from "1.IH" [OF Pair [symmetric] Inl True refl refl this]
        show ?thesis by (simp add: increment_retry_def)
      qed
    qed
  qed
qed

lemma no_route_to_host_not_recoverable: "\<not> is_recoverable_error no_route_to_host"
  by (simp add: classify_simps no_route_to_host_def py_string_simps)

lemma unique_violation_recoverable: "is_recoverable_error unique_violation"
  by (simp add: classify_simps unique_violation_def py_string_simps)

lemma connection_refused_recoverable: "is_recoverable_error connection_refused"
  by (simp add: classify_simps connection_refused_def py_string_simps)

lemma temporary_failure_recoverable: "is_recoverable_error temporary_failure"
  by (simp add: classify_simps temporary_failure_def py_string_simps)

section \<open>C1: which exceptions the retry loop retries\<close>

text \<open>
  Claim C1 reads: an operation that raises a connection-classified exception at every
  attempt is executed again up to \<open>max_retries\<close> times, with delays of the base delay
  times 1, 2 and 3, before the exception propagates; a constraint-violation-classified
  exception propagates at its first occurrence; after a call that succeeds the counter
  is 0.

  The evaluation below runs the loop from a new handler on two exceptions. The first is
  tagged \<open>connection_retry\<close> by \<open>handle_database_error\<close>, and the loop executes the operation
  once, sleeps never and propagates. The second is tagged \<open>constraint_violation\<close>, and the
  loop executes the operation four times and sleeps 1, 2 and 3 seconds. The tag comes
  from \<open>is_connection_error\<close> and \<open>is_constraint_error\<close>; the loop asks
  \<open>is_recoverable_error\<close>, whose lists of class names and of words are different ones.
\<close>

theorem retry_decision_differs_from_classification:
  "action_taken (handle_database_error DatabaseErrorHandler_init no_route_to_host ''query'')
     = ''connection_retry''
   \<and> execute_with_retry (always_raises no_route_to_host) DatabaseErrorHandler_init 0 []
     = (Inl no_route_to_host, DatabaseErrorHandler_init, 1, [])
   \<and> action_taken (handle_database_error DatabaseErrorHandler_init unique_violation ''query'')
     = ''constraint_violation''
   \<and> execute_with_retry (always_raises unique_violation) DatabaseErrorHandler_init 0 []
     = (Inl unique_violation, DatabaseErrorHandler_init\<lparr>retry_count := 3\<rparr>, 4, [1, 2, 3])"
proof -
  have tag1: "action_taken (handle_database_error DatabaseErrorHandler_init no_route_to_host ''query'')
      = ''connection_retry''"
    by (simp add: classify_simps no_route_to_host_def py_string_simps)
  have run1: "execute_with_retry (always_raises no_route_to_host) DatabaseErrorHandler_init 0 []
      = (Inl no_route_to_host, DatabaseErrorHandler_init, 1, [])"
    by (simp add: not_recoverable_propagates always_raises_def no_route_to_host_not_recoverable)
  have tag2: "action_taken (handle_database_error DatabaseErrorHandler_init unique_violation ''query'')
      = ''constraint_violation''"
    by (simp add: classify_simps unique_violation_def py_string_simps)
  have run2: "execute_with_retry (always_raises unique_violation) DatabaseErrorHandler_init 0 []
      = (Inl unique_violation, DatabaseErrorHandler_init\<lparr>retry_count := 3\<rparr>, 4, [1, 2, 3])"
    using always_raises_recoverable [OF unique_violation_recoverable, of DatabaseErrorHandler_init 0 "[]"]
    by (simp add: DatabaseErrorHandler_init_def)
  from tag1 run1 tag2 run2 show ?thesis by blast
qed

section \<open>C9: the retry counter between calls\<close>

text \<open>
  Claim C9 reads: the retry counter is state of one call of the retry wrapper, zero when
  the call starts and discarded when it ends, whether the call returns or propagates an
  exception; the number of retries of a call does not depend on how earlier calls ended.

  The evaluation. The handler is the one object that \<^verbatim>\<open>get_db_error_handler()\<close> returns
  to every call, and the loop resets its counter only after the operation has returned.
  A first call whose operation always raises a refused connection retries three times,
  propagates the exception and leaves the counter at 3. With the handler as that call
  left it, the same operation is tagged \<open>connection_retry\<close> again and is executed once,
  without a retry; and the operation of the repository's test of the retry loop, which
  fails twice and succeeds at its third execution, is executed once and its exception
  propagates, while with the counter at 0 the same call retries twice and returns the
  result.
\<close>

theorem retry_count_left_by_failed_call:
  "execute_with_retry (always_raises connection_refused) DatabaseErrorHandler_init 0 []
     = (Inl connection_refused, DatabaseErrorHandler_init\<lparr>retry_count := 3\<rparr>, 4, [1, 2, 3])
   \<and> action_taken (handle_database_error (DatabaseErrorHandler_init\<lparr>retry_count := 3\<rparr>)
                     connection_refused ''query'')
     = ''connection_retry''
   \<and> execute_with_retry (always_raises connection_refused)
       (DatabaseErrorHandler_init\<lparr>retry_count := 3\<rparr>) 0 []
     = (Inl connection_refused, DatabaseErrorHandler_init\<lparr>retry_count := 3\<rparr>, 1, [])
   \<and> execute_with_retry failing_operation (DatabaseErrorHandler_init\<lparr>retry_count := 3\<rparr>) 0 []
     = (Inl temporary_failure, DatabaseErrorHandler_init\<lparr>retry_count := 3\<rparr>, 1, [])
   \<and> execute_with_retry failing_operation DatabaseErrorHandler_init 0 []
     = (Inr ''success_test_operation'', DatabaseErrorHandler_init, 3, [1, 2])"
proof -
  have first: "execute_with_retry (always_raises connection_refused) DatabaseErrorHandler_init 0 []
      = (Inl connection_refused, DatabaseErrorHandler_init\<lparr>retry_count := 3\<rparr>, 4, [1, 2, 3])"
    using always_raises_recoverable [OF connection_refused_recoverable, of DatabaseErrorHandler_init 0 "[]"]
    by (simp add: DatabaseErrorHandler_init_def)
  have tag: "action_taken (handle_database_error (DatabaseErrorHandler_init\<lparr>retry_count := 3\<rparr>)
                     connection_refused ''query'')
      = ''connection_retry''"
    by (simp add: classify_simps connection_refused_def py_string_simps)
  have again: "execute_with_retry (always_raises connection_refused)
       (DatabaseErrorHandler_init\<lparr>retry_count := 3\<rparr>) 0 []
      = (Inl connection_refused, DatabaseErrorHandler_init\<lparr>retry_count := 3\<rparr>, 1, [])"
    by (simp add: execute_with_retry_propagates always_raises_def should_retry_def
          DatabaseErrorHandler_init_def)
  have second: "execute_with_retry failing_operation (DatabaseErrorHandler_init\<lparr>retry_count := 3\<rparr>) 0 []
      = (Inl temporary_failure, DatabaseErrorHandler_init\<lparr>retry_count := 3\<rparr>, 1, [])"
    by (simp add: execute_with_retry_propagates failing_operation_def should_retry_def
          DatabaseErrorHandler_init_def)
  have third: "execute_with_retry failing_operation DatabaseErrorHandler_init 0 []
      = (Inr ''success_test_operation'', DatabaseErrorHandler_init, 3, [1, 2])"
    by (simp add: execute_with_retry_again execute_with_retry_success failing_operation_def
          should_retry_def increment_retry_def reset_retry_count_def
          temporary_failure_recoverable DatabaseErrorHandler_init_def)
  from first tag again second third show ?thesis by blast
qed

section \<open>The encryption service: helper facts\<close>

lemmas sanitize_simps = sanitize_input_def escape_special_def remove_pattern_def
  dangerous_patterns_def py_strip_def is_space_def

lemma length_urlsafe_b64encode:
  "length (urlsafe_b64encode bs) = 4 * ((length bs + 2) div 3)"
proof (induction bs rule: urlsafe_b64encode.induct)
  case (4 a b c rest)
  have "(length (a # b # c # rest) + 2) div 3 = Suc ((length rest + 2) div 3)"
    by simp
  with 4 show ?case by (simp add: Let_def)
qed (simp_all add: Let_def)

text \<open>The UTF-8 encoding of an ASCII text is the text, and an encoding has at least one
  byte and at most four for every character.\<close>

lemma length_ustr: "length (ustr s) = length s"
  by (simp add: ustr_def)

lemma utf8_encode_ustr:
  "list_all (\<lambda>c. (of_char c :: nat) < 128) s \<Longrightarrow> utf8_encode (ustr s) = Inr s"
  by (induction s) (simp_all add: ustr_def utf8_encode_char_def)

lemma utf8_encode_char_length:
  "utf8_encode_char c = Some bs \<Longrightarrow> 1 \<le> length bs \<and> length bs \<le> 4"
  by (auto simp: utf8_encode_char_def split: if_splits)

lemma utf8_encode_length:
  "utf8_encode data = Inr plain \<Longrightarrow> length data \<le> length plain \<and> length plain \<le> 4 * length data"
proof (induction data arbitrary: plain)
  case Nil
  then show ?case by simp
next
  case (Cons c cs)
  from Cons.prems obtain bs rest where bs: "utf8_encode_char c = Some bs"
    and rest: "utf8_encode cs = Inr rest" and plain: "plain = bs @ rest"
    by (auto split: option.splits sum.splits)
  from utf8_encode_char_length [OF bs] Cons.IH [OF rest] plain show ?case
    by simp
qed

text \<open>The lengths of the parts of a token: the padded plaintext is the next multiple of
  16 above the length of the plaintext, there is one block of ciphertext for each
  block of it, and the token of \<open>n\<close> bytes of plaintext is the base64 text of
  \<open>73 + 16 * (n div 16)\<close> bytes.\<close>

lemma length_be_bytes: "length (be_bytes k n) = k"
  by (simp add: be_bytes_def)

lemma length_pkcs7_pad: "length (pkcs7_pad data) = 16 * (length data div 16 + 1)"
proof -
  have "length data + (16 - length data mod 16) = 16 * (length data div 16 + 1)"
    by presburger
  then show ?thesis by (simp add: pkcs7_pad_def Let_def)
qed

lemma length_blocks_of_16: "length bs = 16 * m \<Longrightarrow> length (blocks_of_16 bs) = m"
proof (induction m arbitrary: bs)
  case 0
  then show ?case by (simp add: blocks_of_16.simps)
next
  case (Suc m)
  then have "bs \<noteq> []" and "length (drop 16 bs) = 16 * m" by auto
  with Suc.IH [of "drop 16 bs"] show ?case
    by (subst blocks_of_16.simps) simp
qed

lemma length_cbc_encrypt: "length (cbc_encrypt f previous ps) = length ps"
  by (induction ps arbitrary: previous) (simp_all add: Let_def)

lemma length_concat_be_bytes: "length (concat (map (be_bytes 16) cs)) = 16 * length cs"
  by (induction cs) (simp_all add: length_be_bytes)

lemma length_fernet_encrypt:
  "length (fernet_encrypt self current_time iv data) = 4 * ((75 + 16 * (length data div 16)) div 3)"
proof -
  have blocks: "length (blocks_of_16 (pkcs7_pad data)) = length data div 16 + 1"
    by (rule length_blocks_of_16) (rule length_pkcs7_pad)
  show ?thesis
    by (simp add: fernet_encrypt_def Let_def length_urlsafe_b64encode length_be_bytes
          length_concat_be_bytes length_cbc_encrypt blocks)
qed

lemma fernet_overhead:
  "(n::nat) < 4 * ((4 * ((75 + 16 * (n div 16)) div 3) + 2) div 3)"
proof -
  have a: "n \<le> 16 * (n div 16) + 15" by presburger
  define m where "m = 75 + 16 * (n div 16)"
  have b: "m \<le> 3 * (m div 3) + 2" by presburger
  define k where "k = 4 * (m div 3) + 2"
  have c: "k \<le> 3 * (k div 3) + 2" by presburger
  from a b c show ?thesis unfolding k_def m_def by linarith
qed

lemma fernet_minimum:
  "136 \<le> 4 * ((4 * ((75 + 16 * (k::nat)) div 3) + 2) div 3)"
proof -
  define m where "m = 75 + 16 * k"
  have a: "75 \<le> m" by (simp add: m_def)
  then have b: "25 \<le> m div 3" by presburger
  define j where "j = 4 * (m div 3) + 2"
  from b have "102 \<le> j" by (simp add: j_def)
  then have "34 \<le> j div 3" by presburger
  then show ?thesis unfolding j_def m_def by simp
qed

text \<open>The pieces of four characters, and the masked text of 16 digits.\<close>

lemma slices_of_4_Nil: "slices_of_4 [] = []"
  by (subst slices_of_4.simps) simp

lemma slices_of_4_Cons: "slices_of_4 (a # b # c # d # rest) = [a, b, c, d] # slices_of_4 rest"
  by (subst slices_of_4.simps) simp

lemma slices_of_4_short: "xs \<noteq> [] \<Longrightarrow> length xs \<le> 4 \<Longrightarrow> slices_of_4 xs = [xs]"
  by (subst slices_of_4.simps) (simp add: slices_of_4_Nil)

lemma ustr_stars: "ustr ''**** **** **** '' = [42, 42, 42, 42, 32, 42, 42, 42, 42, 32, 42, 42, 42, 42, 32]"
  by (simp add: ustr_def)

lemma slices_of_4_masked:
  assumes "length t = 4"
  shows "py_join (ustr '' '') (slices_of_4 (replicate 12 42 @ t))
           = ustr ''**** **** **** '' @ t"
proof -
  from assms have "t \<noteq> []" by auto
  with assms have last: "slices_of_4 t = [t]" by (simp add: slices_of_4_short)
  have "replicate 12 (42 :: nat) = [42, 42, 42, 42, 42, 42, 42, 42, 42, 42, 42, 42]"
    by (simp add: eval_nat_numeral)
  then show ?thesis by (simp add: slices_of_4_Cons last ustr_def)
qed

lemma mask_card_number_16:
  assumes "length card_number \<le> 20" "length (filter (str_isdigit ucd) card_number) = 16"
  shows "mask_card_number ucd self card_number
           = ustr ''**** **** **** '' @ drop 12 (filter (str_isdigit ucd) card_number)"
  using assms by (simp add: mask_card_number_def Let_def slices_of_4_masked)

lemma filter_digits_masked:
  "filter (str_isdigit ucd) (ustr ''**** **** **** '' @ drop 12 (filter (str_isdigit ucd) s))
     = drop 12 (filter (str_isdigit ucd) s)"
proof -
  have stars: "filter (str_isdigit ucd) (ustr ''**** **** **** '') = []"
    by (simp add: ustr_def str_isdigit_def)
  have "\<forall>c \<in> set (drop 12 (filter (str_isdigit ucd) s)). str_isdigit ucd c"
    by (auto dest: in_set_dropD)
  then have digits: "filter (str_isdigit ucd) (drop 12 (filter (str_isdigit ucd) s))
      = drop 12 (filter (str_isdigit ucd) s)"
    by (rule filter_True)
  show ?thesis
    by (simp only: filter_append stars digits append_Nil)
qed

lemma mask_card_number_decrypt_fails:
  "length c > 20 \<Longrightarrow> decrypt self c = Inl e \<Longrightarrow>
   mask_card_number ucd self c = ustr ''**** **** **** ****''"
  by (simp add: mask_card_number_def decrypt_card_number_def)

lemma demo_decrypt_fails:
  "decrypt demo_service (ustr ''not a token, just a long text'') = Inl failed_to_decrypt"
proof -
  have "utf8_encode (ustr ''not a token, just a long text'') = Inr ''not a token, just a long text''"
    by (rule utf8_encode_ustr) simp
  then show ?thesis
    by (simp add: decrypt_def demo_service_def ustr_def)
qed

lemma demo_decrypt_short:
  "decrypt demo_service (ustr ''gAAAAABcard ending in 12'') = Inr (ustr ''card ending in 12'')"
proof -
  have "utf8_encode (ustr ''gAAAAABcard ending in 12'') = Inr ''gAAAAABcard ending in 12''"
    by (rule utf8_encode_ustr) simp
  then show ?thesis
    by (simp add: decrypt_def demo_service_def ustr_def)
qed

section \<open>C5: what \<open>sanitize_input\<close> removes and how it escapes\<close>

text \<open>
  Claim C5 reads: \<open>sanitize_input\<close> removes every occurrence of each pattern of its list
  whatever the case of its letters, and then replaces each of the five characters
  \<open><\<close>, \<open>>\<close>, the two quotes and \<open>&\<close> by exactly its one entity, so that \<open><\<close> becomes
  \<^verbatim>\<open>&lt;\<close>.

  The evaluation: a script tag in mixed case and an SQL phrase in title case stay in the
  text, since only the lower case, upper case and capitalised spellings of a pattern
  are replaced; and \<open><\<close> comes out as \<^verbatim>\<open>&amp;lt;\<close>, since the ampersand is replaced
  last and the entities written before it contain one.
\<close>

theorem sanitize_input_mixed_case_and_ampersand:
  "sanitize_input ''<ScRiPt>'' = ''&amp;lt;ScRiPt&amp;gt;''
   \<and> sanitize_input ''Drop Table users'' = ''Drop Table users''
   \<and> sanitize_input ''<'' = ''&amp;lt;''"
proof -
  have tag: "sanitize_input ''<ScRiPt>'' = ''&amp;lt;ScRiPt&amp;gt;''"
    by (simp add: sanitize_simps py_string_simps)
  have sql: "sanitize_input ''Drop Table users'' = ''Drop Table users''"
    by (simp add: sanitize_simps py_string_simps)
  have lt: "sanitize_input ''<'' = ''&amp;lt;''"
    by (simp add: sanitize_simps py_string_simps)
  from tag sql lt show ?thesis by blast
qed

section \<open>C6: masking a card number of 16 digits\<close>

text \<open>
  Claim C6: for a plaintext card number of 16 digits (of length at most 20, so that it
  is not taken for ciphertext) \<open>mask_card_number\<close> returns the 19 characters
  \<^verbatim>\<open>**** **** **** dddd\<close>, where \<open>dddd\<close> are the last four digits, and no other digit of
  the number is in the result; and for an argument longer than 20 characters whose
  decryption fails it returns \<^verbatim>\<open>**** **** **** ****\<close> and raises nothing.

  The lengths are numbers of characters, as \<^verbatim>\<open>len\<close> counts them, and the digits of the
  card number are the characters that \<^verbatim>\<open>str.isdigit\<close> accepts, whatever the table of the
  digits beyond ASCII is; the number may carry separators. The last four digits appear
  as they are in the argument.
\<close>

theorem mask_card_number_sixteen_digits:
  "(length card_number \<le> 20 \<and> length (filter (str_isdigit ucd) card_number) = 16 \<longrightarrow>
      mask_card_number ucd self card_number
        = ustr ''**** **** **** '' @ drop 12 (filter (str_isdigit ucd) card_number)
      \<and> length (mask_card_number ucd self card_number) = 19
      \<and> filter (str_isdigit ucd) (mask_card_number ucd self card_number)
        = drop 12 (filter (str_isdigit ucd) card_number))
   \<and> (length encrypted > 20 \<and> decrypt self encrypted = Inl e \<longrightarrow>
      mask_card_number ucd self encrypted = ustr ''**** **** **** ****'')"
proof (intro conjI impI)
  assume a: "length card_number \<le> 20 \<and> length (filter (str_isdigit ucd) card_number) = 16"
  then show m: "mask_card_number ucd self card_number
      = ustr ''**** **** **** '' @ drop 12 (filter (str_isdigit ucd) card_number)"
    by (simp add: mask_card_number_16)
  from a show "length (mask_card_number ucd self card_number) = 19"
    by (simp add: m length_ustr)
  show "filter (str_isdigit ucd) (mask_card_number ucd self card_number)
      = drop 12 (filter (str_isdigit ucd) card_number)"
    by (simp only: m filter_digits_masked)
next
  assume "length encrypted > 20 \<and> decrypt self encrypted = Inl e"
  then show "mask_card_number ucd self encrypted = ustr ''**** **** **** ****''"
    by (simp add: mask_card_number_decrypt_fails)
qed

theorem mask_card_number_sixteen_digits_witness:
  "mask_card_number demo_ucd demo_service (ustr ''4111 1111 1111 1234'') = ustr ''**** **** **** 1234''
   \<and> mask_card_number demo_ucd demo_service
        (ustr ''4111'' @ [0x2013] @ ustr ''1111'' @ [0x2013] @ ustr ''1111'' @ [0x2013] @ ustr ''1234'')
      = ustr ''**** **** **** 1234''
   \<and> mask_card_number demo_ucd demo_service
        [0x664, 0x661, 0x661, 0x661, 0x661, 0x661, 0x661, 0x661,
         0x661, 0x661, 0x661, 0x661, 0x661, 0x662, 0x663, 0x664]
      = ustr ''**** **** **** '' @ [0x661, 0x662, 0x663, 0x664]
   \<and> mask_card_number demo_ucd demo_service (ustr ''not a token, just a long text'')
      = ustr ''**** **** **** ****''"
  using mask_card_number_sixteen_digits
    [of "ustr ''4111 1111 1111 1234''" demo_ucd demo_service
        "ustr ''not a token, just a long text''" failed_to_decrypt]
    mask_card_number_sixteen_digits
    [of "ustr ''4111'' @ [0x2013] @ ustr ''1111'' @ [0x2013] @ ustr ''1111'' @ [0x2013] @ ustr ''1234''"
        demo_ucd demo_service "ustr ''not a token, just a long text''" failed_to_decrypt]
    mask_card_number_sixteen_digits
    [of "[0x664, 0x661, 0x661, 0x661, 0x661, 0x661, 0x661, 0x661,
          0x661, 0x661, 0x661, 0x661, 0x661, 0x662, 0x663, 0x664]"
        demo_ucd demo_service "ustr ''not a token, just a long text''" failed_to_decrypt]
  by (simp add: ustr_def str_isdigit_def demo_ucd_def demo_decrypt_fails [unfolded ustr_def, simplified])


section \<open>C10: masking fewer than four digits\<close>

text \<open>
  Claim C10: when the digit content of the argument (after the decryption, for an
  argument longer than 20 characters) has fewer than four digits, \<open>mask_card_number\<close>
  returns as many \<open>*\<close> as there are digits and nothing else: the empty string when there
  is no digit, and neither the placeholder \<^verbatim>\<open>**** **** **** ****\<close> nor an error. The
  digits are the characters that \<^verbatim>\<open>str.isdigit\<close> accepts.
\<close>

theorem mask_card_number_few_digits:
  "(length card_number \<le> 20 \<and> length (filter (str_isdigit ucd) card_number) < 4 \<longrightarrow>
      mask_card_number ucd self card_number
        = replicate (length (filter (str_isdigit ucd) card_number)) (of_char CHR ''*''))
   \<and> (length encrypted > 20 \<and> decrypt self encrypted = Inr decrypted
        \<and> length (filter (str_isdigit ucd) decrypted) < 4 \<longrightarrow>
      mask_card_number ucd self encrypted
        = replicate (length (filter (str_isdigit ucd) decrypted)) (of_char CHR ''*''))"
  by (simp add: mask_card_number_def decrypt_card_number_def)

theorem mask_card_number_few_digits_witness:
  "mask_card_number demo_ucd demo_service (ustr ''card 123'') = ustr ''***''
   \<and> mask_card_number demo_ucd demo_service (ustr ''no digits'') = []
   \<and> mask_card_number demo_ucd demo_service (ustr ''m'' @ [0xB2] @ ustr '' x 4'') = ustr ''**''
   \<and> mask_card_number demo_ucd demo_service (ustr ''gAAAAABcard ending in 12'') = ustr ''**''"
  using mask_card_number_few_digits
          [of "ustr ''card 123''" demo_ucd demo_service "ustr ''gAAAAABcard ending in 12''"
              "ustr ''card ending in 12''"]
        mask_card_number_few_digits
          [of "ustr ''no digits''" demo_ucd demo_service "ustr ''gAAAAABcard ending in 12''"
              "ustr ''card ending in 12''"]
        mask_card_number_few_digits
          [of "ustr ''m'' @ [0xB2] @ ustr '' x 4''" demo_ucd demo_service
              "ustr ''gAAAAABcard ending in 12''" "ustr ''card ending in 12''"]
  by (simp add: ustr_def str_isdigit_def demo_ucd_def demo_decrypt_short [unfolded ustr_def, simplified])


section \<open>C8: the length of a ciphertext\<close>

text \<open>
  Claim C8: for every plaintext \<open>s\<close> the ciphertext that \<open>encrypt\<close> returns is longer
  than \<open>s\<close>.

  Counterexample: the empty plaintext. \<open>encrypt\<close> returns its argument when that is
  empty, before the library is called, so the result has the length of the plaintext.
  And for a plaintext that UTF-8 cannot encode, a lone surrogate, \<open>encrypt\<close> raises its
  \<^verbatim>\<open>ValueError\<close> and returns no ciphertext.
\<close>

theorem encrypt_empty_plaintext:
  "encrypt demo_service 1700000000 7 [] = Inr []
   \<and> encrypt demo_service 1700000000 7 [0xD800] = Inl failed_to_encrypt"
  by (simp add: encrypt_def utf8_encode_char_def)


text \<open>
  C8 as amended: for every plaintext that is not empty and that UTF-8 encodes,
  \<open>encrypt\<close> returns the base64 text of the Fernet token of the encoded plaintext. The
  token of \<open>n\<close> bytes has \<open>4 * ((75 + 16 * (n div 16)) div 3)\<close> characters, the result
  has four characters for every three of the token, and so the result is longer than
  the encoded plaintext, which has at least as many bytes as the plaintext has
  characters. It has at least 136 characters, more than the 20 above which
  \<open>mask_card_number\<close> takes its argument for a ciphertext. The empty plaintext is
  returned as it is.
\<close>

theorem encrypt_longer_than_plaintext:
  assumes "data \<noteq> []" and "utf8_encode data = Inr plain"
  shows "encrypt self current_time iv data
           = Inr (ustr (urlsafe_b64encode (fernet_encrypt self current_time iv plain)))
         \<and> length (fernet_encrypt self current_time iv plain)
           = 4 * ((75 + 16 * (length plain div 16)) div 3)
         \<and> length (ustr (urlsafe_b64encode (fernet_encrypt self current_time iv plain)))
           = 4 * ((length (fernet_encrypt self current_time iv plain) + 2) div 3)
         \<and> length data \<le> length plain
         \<and> length plain < length (ustr (urlsafe_b64encode (fernet_encrypt self current_time iv plain)))
         \<and> length data < length (ustr (urlsafe_b64encode (fernet_encrypt self current_time iv plain)))
         \<and> 136 \<le> length (ustr (urlsafe_b64encode (fernet_encrypt self current_time iv plain)))"
proof -
  let ?token = "fernet_encrypt self current_time iv plain"
  from assms have enc: "encrypt self current_time iv data = Inr (ustr (urlsafe_b64encode ?token))"
    by (simp add: encrypt_def Let_def)
  have tok: "length ?token = 4 * ((75 + 16 * (length plain div 16)) div 3)"
    by (rule length_fernet_encrypt)
  have out: "length (ustr (urlsafe_b64encode ?token)) = 4 * ((length ?token + 2) div 3)"
    by (simp only: length_ustr length_urlsafe_b64encode)
  from assms(2) have le: "length data \<le> length plain"
    by (simp add: utf8_encode_length)
  have "length plain < 4 * ((4 * ((75 + 16 * (length plain div 16)) div 3) + 2) div 3)"
    by (rule fernet_overhead)
  then have lt: "length plain < length (ustr (urlsafe_b64encode ?token))"
    by (simp only: out tok)
  have "136 \<le> 4 * ((4 * ((75 + 16 * (length plain div 16)) div 3) + 2) div 3)"
    by (rule fernet_minimum)
  then have big: "136 \<le> length (ustr (urlsafe_b64encode ?token))"
    by (simp only: out tok)
  from le lt have lt': "length data < length (ustr (urlsafe_b64encode ?token))"
    by (rule le_less_trans)
  from enc tok out le lt lt' big show ?thesis by blast
qed

theorem encrypt_longer_than_plaintext_witness:
  "length (fernet_encrypt demo_service 1700000000 7 ''4111111111111111'') = 120
   \<and> (\<exists>c. encrypt demo_service 1700000000 7 (ustr ''4111111111111111'') = Inr c
          \<and> length c = 160 \<and> length (ustr ''4111111111111111'') = 16)"
proof -
  have ne: "ustr ''4111111111111111'' \<noteq> []"
    by (simp add: ustr_def)
  have enc: "utf8_encode (ustr ''4111111111111111'') = Inr ''4111111111111111''"
    by (rule utf8_encode_ustr) simp
  from encrypt_longer_than_plaintext [OF ne enc, of demo_service 1700000000 7] show ?thesis
    by (simp add: length_ustr)
qed

section \<open>C4: what \<open>verify_password\<close> does with a malformed hash\<close>



section \<open>C7: the response to a validation failure\<close>

text \<open>
  Claim C7 reads: the response to a request validation failure has status 422 and code
  \<open>VALIDATION_ERROR\<close>, and its \<open>details\<close> array has one entry per violation, of the
  shape \<open>{field, message, kind}\<close>, where \<open>field\<close> is the dotted path of the location.

  Counterexample: for a missing \<open>username\<close> in the body the entry has the members
  \<open>field\<close>, \<open>message\<close> and \<open>type\<close>, and its \<open>field\<close> is the location joined with an arrow.
\<close>

theorem validation_details_arrow_and_type:
  "body_error_member ''details''
     (validation_exception_handler ''id'' ''t'' test_request [missing_username])
   = Some (JArr [JObj [(''field'', JStr ''body -> username''),
                       (''message'', JStr ''field required''),
                       (''type'', JStr ''value_error.missing'')]])
   \<and> JObj [(''field'', JStr ''body -> username''),
            (''message'', JStr ''field required''),
            (''type'', JStr ''value_error.missing'')]
     \<noteq> JObj [(''field'', JStr ''body.username''),
              (''message'', JStr ''field required''),
              (''kind'', JStr ''value_error.missing'')]"
  by (simp add: body_error_member_def validation_exception_handler_def json_get_def
        format_validation_error_def missing_username_def str_loc_def Let_def)

text \<open>
  C7 as amended: the response has status 422 and code \<open>VALIDATION_ERROR\<close>, and its
  \<open>details\<close> array has one entry per violation, in order, each an object with the
  members \<open>field\<close>, \<open>message\<close> and \<open>type\<close>, where \<open>field\<close> is the items of the location
  joined with \<^verbatim>\<open>" -> "\<close>.
\<close>

theorem validation_response_shape:
  "status_code (validation_exception_handler uuid4 now req exc_errors) = 422
   \<and> body_error_member ''code'' (validation_exception_handler uuid4 now req exc_errors)
       = Some (JStr ''VALIDATION_ERROR'')
   \<and> body_error_member ''details'' (validation_exception_handler uuid4 now req exc_errors)
       = Some (JArr (map format_validation_error exc_errors))
   \<and> length (map format_validation_error exc_errors) = length exc_errors
   \<and> format_validation_error error
       = JObj [(''field'', JStr (py_join '' -> '' (map str_loc (loc error)))),
               (''message'', JStr (msg error)),
               (''type'', JStr (error_kind error))]"
  by (simp add: body_error_member_def validation_exception_handler_def json_get_def
        format_validation_error_def Let_def)

section \<open>The correlation identifier: helper facts\<close>






lemma dispatch_header:
  "error_handler_dispatch uuid4 now req call_next = Inr resp \<Longrightarrow>
   headers resp ''X-Correlation-ID'' = Some uuid4"
  by (auto simp: error_handler_dispatch_def Let_def create_error_response_def
        split: sum.splits raised.splits)







section \<open>The rate limiter, one request at a time\<close>

lemma evict_idem: "evict t h (evict t h q) = evict t h q"
  by (simp add: evict_def)

lemma evict_Nil: "evict t h [] = []"
  by (simp add: evict_def)

lemma window_sweep: "window (sweep t h d) key = evict t h (window d key)"
  by (simp add: window_def sweep_def evict_Nil Let_def split: option.split)

lemma window_upd_same: "window (d(key \<mapsto> q)) key = q"
  by (simp add: window_def)

text \<open>The sweep at the head of the dispatch keeps the settings; a window is evicted by it
  or left as it was.\<close>

lemma swept_settings:
  "calls_per_minute (swept s t) = calls_per_minute s"
  "calls_per_hour (swept s t) = calls_per_hour s"
  "burst_limit (swept s t) = burst_limit s"
  "cleanup_interval (swept s t) = cleanup_interval s"
  by (simp_all add: swept_def cleanup_old_requests_def)

lemma swept_burst:
  "evict t 10 (window (burst_requests (swept s t)) key) = evict t 10 (window (burst_requests s) key)"
  by (simp add: swept_def cleanup_old_requests_def window_sweep evict_idem)

lemma swept_minute:
  "evict t 60 (window (minute_requests (swept s t)) key) = evict t 60 (window (minute_requests s) key)"
  by (simp add: swept_def cleanup_old_requests_def window_sweep evict_idem)

lemma swept_hour:
  "evict t 3600 (window (hour_requests (swept s t)) key) = evict t 3600 (window (hour_requests s) key)"
  by (simp add: swept_def cleanup_old_requests_def window_sweep evict_idem)

lemma swept_minute_fresh:
  "evict t 60 (window (minute_requests s) key) = window (minute_requests s) key \<Longrightarrow>
   window (minute_requests (swept s t)) key = window (minute_requests s) key"
  by (simp add: swept_def cleanup_old_requests_def window_sweep)

lemma swept_hour_fresh:
  "evict t 3600 (window (hour_requests s) key) = window (hour_requests s) key \<Longrightarrow>
   window (hour_requests (swept s t)) key = window (hour_requests s) key"
  by (simp add: swept_def cleanup_old_requests_def window_sweep)

lemma rate_limit_dispatch_swept:
  "rate_limit_dispatch self current_time now req call_next =
     (let client_ip = get_client_ip req;
          (limited, s) = is_rate_limited (swept self current_time) client_ip (url_path req) current_time
      in if limited then (Inr (create_rate_limit_response now client_ip req), s)
         else
           (let s = record_request s client_ip current_time
            in case call_next req of
                 Inl e \<Rightarrow> (Inl e, s)
               | Inr resp \<Rightarrow> (Inr (add_rate_limit_headers s resp client_ip current_time), s)))"
  by (simp add: rate_limit_dispatch_def swept_def Let_def)

lemma is_rate_limited_minute:
  assumes "int (length (evict t 10 (window (burst_requests s) (ip @ '':burst'')))) < burst_limit s"
    and "calls_per_minute s \<le> int (length (evict t 60 (window (minute_requests s) (ip @ '':minute''))))"
  shows "is_rate_limited s ip path t =
    (True, s\<lparr>burst_requests := (burst_requests s)
                 (ip @ '':burst'' \<mapsto> evict t 10 (window (burst_requests s) (ip @ '':burst''))),
              minute_requests := (minute_requests s)
                 (ip @ '':minute'' \<mapsto> evict t 60 (window (minute_requests s) (ip @ '':minute'')))\<rparr>)"
  using assms by (simp add: is_rate_limited_def Let_def)

lemma is_rate_limited_pass:
  assumes "int (length (evict t 10 (window (burst_requests s) (ip @ '':burst'')))) < burst_limit s"
    and "int (length (evict t 60 (window (minute_requests s) (ip @ '':minute'')))) < calls_per_minute s"
    and "int (length (evict t 3600 (window (hour_requests s) (ip @ '':hour'')))) < calls_per_hour s"
    and "\<not> is_sensitive_endpoint path"
  shows "is_rate_limited s ip path t =
    (False, s\<lparr>burst_requests := (burst_requests s)
                 (ip @ '':burst'' \<mapsto> evict t 10 (window (burst_requests s) (ip @ '':burst''))),
              minute_requests := (minute_requests s)
                 (ip @ '':minute'' \<mapsto> evict t 60 (window (minute_requests s) (ip @ '':minute''))),
              hour_requests := (hour_requests s)
                 (ip @ '':hour'' \<mapsto> evict t 3600 (window (hour_requests s) (ip @ '':hour'')))\<rparr>)"
  using assms by (simp add: is_rate_limited_def Let_def)

lemma dispatch_limited:
  assumes ip: "get_client_ip req = ip"
    and b: "int (length (evict t 10 (window (burst_requests s) (ip @ '':burst'')))) < burst_limit s"
    and m: "calls_per_minute s \<le> int (length (window (minute_requests s) (ip @ '':minute'')))"
    and mf: "evict t 60 (window (minute_requests s) (ip @ '':minute''))
               = window (minute_requests s) (ip @ '':minute'')"
    and hf: "evict t 3600 (window (hour_requests s) (ip @ '':hour''))
               = window (hour_requests s) (ip @ '':hour'')"
  shows "fst (rate_limit_dispatch s t now req call_next) = Inr (create_rate_limit_response now ip req)"
    and "window (burst_requests (snd (rate_limit_dispatch s t now req call_next))) (ip @ '':burst'')
           = evict t 10 (window (burst_requests s) (ip @ '':burst''))"
    and "window (minute_requests (snd (rate_limit_dispatch s t now req call_next))) (ip @ '':minute'')
           = window (minute_requests s) (ip @ '':minute'')"
    and "window (hour_requests (snd (rate_limit_dispatch s t now req call_next))) (ip @ '':hour'')
           = window (hour_requests s) (ip @ '':hour'')"
    and "calls_per_minute (snd (rate_limit_dispatch s t now req call_next)) = calls_per_minute s"
    and "calls_per_hour (snd (rate_limit_dispatch s t now req call_next)) = calls_per_hour s"
    and "burst_limit (snd (rate_limit_dispatch s t now req call_next)) = burst_limit s"
proof -
  let ?s = "swept s t"
  have b': "int (length (evict t 10 (window (burst_requests ?s) (ip @ '':burst'')))) < burst_limit ?s"
    using b by (simp add: swept_burst swept_settings)
  have m': "calls_per_minute ?s
      \<le> int (length (evict t 60 (window (minute_requests ?s) (ip @ '':minute''))))"
    using m mf by (simp add: swept_minute swept_settings)
  note lim = is_rate_limited_minute [OF b' m', of "url_path req"]
  have run: "rate_limit_dispatch s t now req call_next =
      (Inr (create_rate_limit_response now ip req),
       ?s\<lparr>burst_requests := (burst_requests ?s)
              (ip @ '':burst'' \<mapsto> evict t 10 (window (burst_requests ?s) (ip @ '':burst''))),
           minute_requests := (minute_requests ?s)
              (ip @ '':minute'' \<mapsto> evict t 60 (window (minute_requests ?s) (ip @ '':minute'')))\<rparr>)"
    by (simp add: rate_limit_dispatch_swept ip lim)
  show "fst (rate_limit_dispatch s t now req call_next) = Inr (create_rate_limit_response now ip req)"
    by (simp add: run)
  show "window (burst_requests (snd (rate_limit_dispatch s t now req call_next))) (ip @ '':burst'')
           = evict t 10 (window (burst_requests s) (ip @ '':burst''))"
    by (simp add: run window_upd_same swept_burst)
  show "window (minute_requests (snd (rate_limit_dispatch s t now req call_next))) (ip @ '':minute'')
           = window (minute_requests s) (ip @ '':minute'')"
    by (simp add: run window_upd_same swept_minute mf)
  show "window (hour_requests (snd (rate_limit_dispatch s t now req call_next))) (ip @ '':hour'')
           = window (hour_requests s) (ip @ '':hour'')"
    by (simp add: run swept_hour_fresh [OF hf])
  show "calls_per_minute (snd (rate_limit_dispatch s t now req call_next)) = calls_per_minute s"
    and "calls_per_hour (snd (rate_limit_dispatch s t now req call_next)) = calls_per_hour s"
    and "burst_limit (snd (rate_limit_dispatch s t now req call_next)) = burst_limit s"
    by (simp_all add: run swept_settings)
qed

lemma dispatch_allowed:
  assumes ip: "get_client_ip req = ip"
    and b: "int (length (evict t 10 (window (burst_requests s) (ip @ '':burst'')))) < burst_limit s"
    and m: "int (length (window (minute_requests s) (ip @ '':minute''))) < calls_per_minute s"
    and h: "int (length (window (hour_requests s) (ip @ '':hour''))) < calls_per_hour s"
    and mf: "evict t 60 (window (minute_requests s) (ip @ '':minute''))
               = window (minute_requests s) (ip @ '':minute'')"
    and hf: "evict t 3600 (window (hour_requests s) (ip @ '':hour''))
               = window (hour_requests s) (ip @ '':hour'')"
    and ns: "\<not> is_sensitive_endpoint (url_path req)"
    and cn: "call_next req = Inr resp"
  shows "fst (rate_limit_dispatch s t now req call_next) =
      Inr (resp\<lparr>headers := (headers resp)
        (''X-RateLimit-Limit-Minute'' \<mapsto> str_int (calls_per_minute s),
         ''X-RateLimit-Remaining-Minute'' \<mapsto>
            str_int (max 0 (calls_per_minute s
                              - (int (length (window (minute_requests s) (ip @ '':minute''))) + 1))),
         ''X-RateLimit-Limit-Hour'' \<mapsto> str_int (calls_per_hour s),
         ''X-RateLimit-Remaining-Hour'' \<mapsto>
            str_int (max 0 (calls_per_hour s
                              - (int (length (window (hour_requests s) (ip @ '':hour''))) + 1))),
         ''X-RateLimit-Reset'' \<mapsto> str_int (py_int t + (60 - py_int t mod 60)))\<rparr>)"
    and "window (burst_requests (snd (rate_limit_dispatch s t now req call_next))) (ip @ '':burst'')
           = evict t 10 (window (burst_requests s) (ip @ '':burst'')) @ [t]"
    and "window (minute_requests (snd (rate_limit_dispatch s t now req call_next))) (ip @ '':minute'')
           = window (minute_requests s) (ip @ '':minute'') @ [t]"
    and "window (hour_requests (snd (rate_limit_dispatch s t now req call_next))) (ip @ '':hour'')
           = window (hour_requests s) (ip @ '':hour'') @ [t]"
    and "calls_per_minute (snd (rate_limit_dispatch s t now req call_next)) = calls_per_minute s"
    and "calls_per_hour (snd (rate_limit_dispatch s t now req call_next)) = calls_per_hour s"
    and "burst_limit (snd (rate_limit_dispatch s t now req call_next)) = burst_limit s"
proof -
  let ?s = "swept s t"
  have b': "int (length (evict t 10 (window (burst_requests ?s) (ip @ '':burst'')))) < burst_limit ?s"
    using b by (simp add: swept_burst swept_settings)
  have m': "int (length (evict t 60 (window (minute_requests ?s) (ip @ '':minute''))))
      < calls_per_minute ?s"
    using m mf by (simp add: swept_minute swept_settings)
  have h': "int (length (evict t 3600 (window (hour_requests ?s) (ip @ '':hour''))))
      < calls_per_hour ?s"
    using h hf by (simp add: swept_hour swept_settings)
  note pass = is_rate_limited_pass [OF b' m' h' ns]
  let ?r = "record_request
     (?s\<lparr>burst_requests := (burst_requests ?s)
              (ip @ '':burst'' \<mapsto> evict t 10 (window (burst_requests ?s) (ip @ '':burst''))),
          minute_requests := (minute_requests ?s)
              (ip @ '':minute'' \<mapsto> evict t 60 (window (minute_requests ?s) (ip @ '':minute''))),
          hour_requests := (hour_requests ?s)
              (ip @ '':hour'' \<mapsto> evict t 3600 (window (hour_requests ?s) (ip @ '':hour'')))\<rparr>)
     ip t"
  have run: "rate_limit_dispatch s t now req call_next =
      (Inr (add_rate_limit_headers ?r resp ip t), ?r)"
    by (simp add: rate_limit_dispatch_swept ip pass cn Let_def)
  have wb: "window (burst_requests ?r) (ip @ '':burst'')
      = evict t 10 (window (burst_requests s) (ip @ '':burst'')) @ [t]"
    by (simp add: record_request_def window_upd_same swept_burst)
  have wm: "window (minute_requests ?r) (ip @ '':minute'')
      = window (minute_requests s) (ip @ '':minute'') @ [t]"
    by (simp add: record_request_def window_upd_same swept_minute mf)
  have wh: "window (hour_requests ?r) (ip @ '':hour'')
      = window (hour_requests s) (ip @ '':hour'') @ [t]"
    by (simp add: record_request_def window_upd_same swept_hour hf)
  have st: "calls_per_minute ?r = calls_per_minute s" "calls_per_hour ?r = calls_per_hour s"
    "burst_limit ?r = burst_limit s"
    by (simp_all add: record_request_def swept_settings)
  show "fst (rate_limit_dispatch s t now req call_next) =
      Inr (resp\<lparr>headers := (headers resp)
        (''X-RateLimit-Limit-Minute'' \<mapsto> str_int (calls_per_minute s),
         ''X-RateLimit-Remaining-Minute'' \<mapsto>
            str_int (max 0 (calls_per_minute s
                              - (int (length (window (minute_requests s) (ip @ '':minute''))) + 1))),
         ''X-RateLimit-Limit-Hour'' \<mapsto> str_int (calls_per_hour s),
         ''X-RateLimit-Remaining-Hour'' \<mapsto>
            str_int (max 0 (calls_per_hour s
                              - (int (length (window (hour_requests s) (ip @ '':hour''))) + 1))),
         ''X-RateLimit-Reset'' \<mapsto> str_int (py_int t + (60 - py_int t mod 60)))\<rparr>)"
    by (simp add: run add_rate_limit_headers_def Let_def wm wh st add.commute)
  show "window (burst_requests (snd (rate_limit_dispatch s t now req call_next))) (ip @ '':burst'')
           = evict t 10 (window (burst_requests s) (ip @ '':burst'')) @ [t]"
    unfolding run snd_conv by (rule wb)
  show "window (minute_requests (snd (rate_limit_dispatch s t now req call_next))) (ip @ '':minute'')
           = window (minute_requests s) (ip @ '':minute'') @ [t]"
    unfolding run snd_conv by (rule wm)
  show "window (hour_requests (snd (rate_limit_dispatch s t now req call_next))) (ip @ '':hour'')
           = window (hour_requests s) (ip @ '':hour'') @ [t]"
    unfolding run snd_conv by (rule wh)
  show "calls_per_minute (snd (rate_limit_dispatch s t now req call_next)) = calls_per_minute s"
    and "calls_per_hour (snd (rate_limit_dispatch s t now req call_next)) = calls_per_hour s"
    and "burst_limit (snd (rate_limit_dispatch s t now req call_next)) = burst_limit s"
    unfolding run snd_conv by (rule st)+
qed

lemma serve_Cons:
  "fst (serve s cn ((t, now, req) # rest))
     = fst (rate_limit_dispatch s t now req cn) # fst (serve (snd (rate_limit_dispatch s t now req cn)) cn rest)"
  "snd (serve s cn ((t, now, req) # rest))
     = snd (serve (snd (rate_limit_dispatch s t now req cn)) cn rest)"
  by (simp_all add: split_beta Let_def)

lemma serve_Nil: "fst (serve s cn []) = []" "snd (serve s cn []) = s"
  by simp_all

lemma length_evict: "length (evict t h q) \<le> length q"
  by (simp add: evict_def length_dropWhile_le)

lemma str_int_digits: "str_int 0 = ''0''" "str_int 1 = ''1''" "str_int 2 = ''2''" "str_int 3 = ''3''"
  by (simp_all add: str_int_def str_nat.simps digit_char_def)

section \<open>C3: one correlation identifier in the header and in the body\<close>




section \<open>C2: five requests against a limit of three per minute\<close>

text \<open>
  Claim C2 reads: with \<open>calls_per_minute = 3\<close>, the burst and hourly limits out of reach,
  and no history for the client, five requests that arrive within one minute from one
  client address on a path that is not sensitive get these answers: the first three go
  to the handler below and come back with its answer, the last two are answered with
  status 429 and the header \<open>Retry-After: 60\<close>; the third answer carries
  \<open>X-RateLimit-Remaining-Minute: 0\<close>; and no time stamp is added to a window for a
  request that was limited.

  In the statement the answers of the first three requests are the handler's answers
  with the five rate limit headers written into them. After the five requests the
  minute and hour windows of the client hold the three time stamps of the requests
  that passed, and the burst window is the one left by the third request, less what
  the fourth and fifth request evicted from its front.
\<close>

theorem three_per_minute_five_requests:
  fixes rl :: rate_limiter
    and hdr :: "response \<Rightarrow> string \<Rightarrow> int \<Rightarrow> real \<Rightarrow> response"
  defines "hdr \<equiv> \<lambda>resp remaining_minute count t.
     resp\<lparr>headers := (headers resp)
        (''X-RateLimit-Limit-Minute'' \<mapsto> ''3'',
         ''X-RateLimit-Remaining-Minute'' \<mapsto> remaining_minute,
         ''X-RateLimit-Limit-Hour'' \<mapsto> str_int (calls_per_hour rl),
         ''X-RateLimit-Remaining-Hour'' \<mapsto> str_int (calls_per_hour rl - count),
         ''X-RateLimit-Reset'' \<mapsto> str_int (py_int t + (60 - py_int t mod 60)))\<rparr>"
  assumes cpm: "calls_per_minute rl = 3" and bl: "3 < burst_limit rl" and cph: "3 < calls_per_hour rl"
    and wb: "window (burst_requests rl) (ip @ '':burst'') = []"
    and wm: "window (minute_requests rl) (ip @ '':minute'') = []"
    and wh: "window (hour_requests rl) (ip @ '':hour'') = []"
    and ip: "get_client_ip r1 = ip" "get_client_ip r2 = ip" "get_client_ip r3 = ip"
            "get_client_ip r4 = ip" "get_client_ip r5 = ip"
    and ns: "\<not> is_sensitive_endpoint (url_path r1)" "\<not> is_sensitive_endpoint (url_path r2)"
            "\<not> is_sensitive_endpoint (url_path r3)"
    and times: "t1 \<le> t2" "t2 \<le> t3" "t3 \<le> t4" "t4 \<le> t5" "t5 \<le> t1 + 60"
    and cn: "call_next r1 = Inr a1" "call_next r2 = Inr a2" "call_next r3 = Inr a3"
  shows "fst (serve rl call_next [(t1, n1, r1), (t2, n2, r2), (t3, n3, r3), (t4, n4, r4), (t5, n5, r5)])
       = [Inr (hdr a1 ''2'' 1 t1), Inr (hdr a2 ''1'' 2 t2), Inr (hdr a3 ''0'' 3 t3),
          Inr (create_rate_limit_response n4 ip r4), Inr (create_rate_limit_response n5 ip r5)]
     \<and> status_code (create_rate_limit_response n4 ip r4) = 429
     \<and> headers (create_rate_limit_response n4 ip r4) ''Retry-After'' = Some ''60''
     \<and> status_code (create_rate_limit_response n5 ip r5) = 429
     \<and> headers (create_rate_limit_response n5 ip r5) ''Retry-After'' = Some ''60''
     \<and> window (minute_requests (snd (serve rl call_next
            [(t1, n1, r1), (t2, n2, r2), (t3, n3, r3), (t4, n4, r4), (t5, n5, r5)]))) (ip @ '':minute'')
         = [t1, t2, t3]
     \<and> window (hour_requests (snd (serve rl call_next
            [(t1, n1, r1), (t2, n2, r2), (t3, n3, r3), (t4, n4, r4), (t5, n5, r5)]))) (ip @ '':hour'')
         = [t1, t2, t3]
     \<and> window (burst_requests (snd (serve rl call_next
            [(t1, n1, r1), (t2, n2, r2), (t3, n3, r3), (t4, n4, r4), (t5, n5, r5)]))) (ip @ '':burst'')
         = evict t5 10 (evict t4 10
             (window (burst_requests (snd (serve rl call_next
                [(t1, n1, r1), (t2, n2, r2), (t3, n3, r3)]))) (ip @ '':burst'')))"
proof -
  define s1 where "s1 = snd (rate_limit_dispatch rl t1 n1 r1 call_next)"
  define s2 where "s2 = snd (rate_limit_dispatch s1 t2 n2 r2 call_next)"
  define s3 where "s3 = snd (rate_limit_dispatch s2 t3 n3 r3 call_next)"
  define s4 where "s4 = snd (rate_limit_dispatch s3 t4 n4 r4 call_next)"
  define s5 where "s5 = snd (rate_limit_dispatch s4 t5 n5 r5 call_next)"
  \<comment> \<open>request 1\<close>
  have b1: "int (length (evict t1 10 (window (burst_requests rl) (ip @ '':burst'')))) < burst_limit rl"
    using bl by (simp add: wb evict_Nil)
  have m1: "int (length (window (minute_requests rl) (ip @ '':minute''))) < calls_per_minute rl"
    using cpm cph by (simp add: wb wm wh)
  have h1: "int (length (window (hour_requests rl) (ip @ '':hour''))) < calls_per_hour rl"
    using cpm cph by (simp add: wb wm wh)
  have mf1: "evict t1 60 (window (minute_requests rl) (ip @ '':minute''))
      = window (minute_requests rl) (ip @ '':minute'')"
    using times by (simp add: wb wm wh evict_def)
  have hf1: "evict t1 3600 (window (hour_requests rl) (ip @ '':hour''))
      = window (hour_requests rl) (ip @ '':hour'')"
    using times by (simp add: wb wm wh evict_def)
  note step1 = dispatch_allowed
    [where s = rl and t = t1 and ip = ip and req = r1 and call_next = call_next
       and resp = a1 and now = n1,
     OF ip(1) b1 m1 h1 mf1 hf1 ns(1) cn(1), folded s1_def]
  have o1: "fst (rate_limit_dispatch rl t1 n1 r1 call_next) = Inr (hdr a1 ''2'' 1 t1)"
    using step1(1) cpm cph by (simp add: wb wm wh hdr_def str_int_digits)
  have w1: "window (minute_requests s1) (ip @ '':minute'') = [t1]"
    "window (hour_requests s1) (ip @ '':hour'') = [t1]"
    "length (window (burst_requests s1) (ip @ '':burst'')) \<le> 1"
    "calls_per_minute s1 = 3" "calls_per_hour s1 = calls_per_hour rl" "burst_limit s1 = burst_limit rl"
    using step1(2-7) cpm cph 
      length_evict [of t1 10 "window (burst_requests rl) (ip @ '':burst'')"]
    by (simp_all add: wb wm wh)
  \<comment> \<open>request 2\<close>
  have b2: "int (length (evict t2 10 (window (burst_requests s1) (ip @ '':burst'')))) < burst_limit s1"
    using bl w1(3,6) length_evict [of t2 10 "window (burst_requests s1) (ip @ '':burst'')"] by simp
  have m2: "int (length (window (minute_requests s1) (ip @ '':minute''))) < calls_per_minute s1"
    using cph by (simp add: w1)
  have h2: "int (length (window (hour_requests s1) (ip @ '':hour''))) < calls_per_hour s1"
    using cph by (simp add: w1)
  have mf2: "evict t2 60 (window (minute_requests s1) (ip @ '':minute''))
      = window (minute_requests s1) (ip @ '':minute'')"
    using times by (simp add: w1 evict_def)
  have hf2: "evict t2 3600 (window (hour_requests s1) (ip @ '':hour''))
      = window (hour_requests s1) (ip @ '':hour'')"
    using times by (simp add: w1 evict_def)
  note step2 = dispatch_allowed
    [where s = s1 and t = t2 and ip = ip and req = r2 and call_next = call_next
       and resp = a2 and now = n2,
     OF ip(2) b2 m2 h2 mf2 hf2 ns(2) cn(2), folded s2_def]
  have o2: "fst (rate_limit_dispatch s1 t2 n2 r2 call_next) = Inr (hdr a2 ''1'' 2 t2)"
    using step2(1) cpm cph by (simp add: w1 hdr_def str_int_digits)
  have w2: "window (minute_requests s2) (ip @ '':minute'') = [t1, t2]"
    "window (hour_requests s2) (ip @ '':hour'') = [t1, t2]"
    "length (window (burst_requests s2) (ip @ '':burst'')) \<le> 2"
    "calls_per_minute s2 = 3" "calls_per_hour s2 = calls_per_hour rl" "burst_limit s2 = burst_limit rl"
    using step2(2-7) cpm cph w1(3)
      length_evict [of t2 10 "window (burst_requests s1) (ip @ '':burst'')"]
    by (simp_all add: w1(1,2,4-6))
  \<comment> \<open>request 3\<close>
  have b3: "int (length (evict t3 10 (window (burst_requests s2) (ip @ '':burst'')))) < burst_limit s2"
    using bl w2(3,6) length_evict [of t3 10 "window (burst_requests s2) (ip @ '':burst'')"] by simp
  have m3: "int (length (window (minute_requests s2) (ip @ '':minute''))) < calls_per_minute s2"
    using cph by (simp add: w2)
  have h3: "int (length (window (hour_requests s2) (ip @ '':hour''))) < calls_per_hour s2"
    using cph by (simp add: w2)
  have mf3: "evict t3 60 (window (minute_requests s2) (ip @ '':minute''))
      = window (minute_requests s2) (ip @ '':minute'')"
    using times by (simp add: w2 evict_def)
  have hf3: "evict t3 3600 (window (hour_requests s2) (ip @ '':hour''))
      = window (hour_requests s2) (ip @ '':hour'')"
    using times by (simp add: w2 evict_def)
  note step3 = dispatch_allowed
    [where s = s2 and t = t3 and ip = ip and req = r3 and call_next = call_next
       and resp = a3 and now = n3,
     OF ip(3) b3 m3 h3 mf3 hf3 ns(3) cn(3), folded s3_def]
  have o3: "fst (rate_limit_dispatch s2 t3 n3 r3 call_next) = Inr (hdr a3 ''0'' 3 t3)"
    using step3(1) cpm cph by (simp add: w2 hdr_def str_int_digits)
  have w3: "window (minute_requests s3) (ip @ '':minute'') = [t1, t2, t3]"
    "window (hour_requests s3) (ip @ '':hour'') = [t1, t2, t3]"
    "length (window (burst_requests s3) (ip @ '':burst'')) \<le> 3"
    "calls_per_minute s3 = 3" "calls_per_hour s3 = calls_per_hour rl" "burst_limit s3 = burst_limit rl"
    using step3(2-7) cpm cph w2(3)
      length_evict [of t3 10 "window (burst_requests s2) (ip @ '':burst'')"]
    by (simp_all add: w2(1,2,4-6))
  \<comment> \<open>request 4\<close>
  have b4: "int (length (evict t4 10 (window (burst_requests s3) (ip @ '':burst'')))) < burst_limit s3"
    using bl w3(3,6) length_evict [of t4 10 "window (burst_requests s3) (ip @ '':burst'')"] by simp
  have m4: "calls_per_minute s3 \<le> int (length (window (minute_requests s3) (ip @ '':minute'')))"
    by (simp add: w3)
  have mf4: "evict t4 60 (window (minute_requests s3) (ip @ '':minute''))
      = window (minute_requests s3) (ip @ '':minute'')"
    using times by (simp add: w3 evict_def)
  have hf4: "evict t4 3600 (window (hour_requests s3) (ip @ '':hour''))
      = window (hour_requests s3) (ip @ '':hour'')"
    using times by (simp add: w3 evict_def)
  note step4 = dispatch_limited
    [where s = s3 and t = t4 and ip = ip and req = r4 and call_next = call_next and now = n4,
     OF ip(4) b4 m4 mf4 hf4, folded s4_def]
  have o4: "fst (rate_limit_dispatch s3 t4 n4 r4 call_next) = Inr (create_rate_limit_response n4 ip r4)"
    by (rule step4(1))
  have w4: "window (minute_requests s4) (ip @ '':minute'') = [t1, t2, t3]"
    "window (hour_requests s4) (ip @ '':hour'') = [t1, t2, t3]"
    "window (burst_requests s4) (ip @ '':burst'') = evict t4 10 (window (burst_requests s3) (ip @ '':burst''))"
    "calls_per_minute s4 = 3" "calls_per_hour s4 = calls_per_hour rl" "burst_limit s4 = burst_limit rl"
    using step4(2-7) by (simp_all add: w3)
  have l4: "length (window (burst_requests s4) (ip @ '':burst'')) \<le> 3"
    using w3(3) length_evict [of t4 10 "window (burst_requests s3) (ip @ '':burst'')"] by (simp add: w4)
  \<comment> \<open>request 5\<close>
  have b5: "int (length (evict t5 10 (window (burst_requests s4) (ip @ '':burst'')))) < burst_limit s4"
    using bl l4 w4(6) length_evict [of t5 10 "window (burst_requests s4) (ip @ '':burst'')"] by simp
  have m5: "calls_per_minute s4 \<le> int (length (window (minute_requests s4) (ip @ '':minute'')))"
    by (simp add: w4)
  have mf5: "evict t5 60 (window (minute_requests s4) (ip @ '':minute''))
      = window (minute_requests s4) (ip @ '':minute'')"
    using times by (simp add: w4 evict_def)
  have hf5: "evict t5 3600 (window (hour_requests s4) (ip @ '':hour''))
      = window (hour_requests s4) (ip @ '':hour'')"
    using times by (simp add: w4 evict_def)
  note step5 = dispatch_limited
    [where s = s4 and t = t5 and ip = ip and req = r5 and call_next = call_next and now = n5,
     OF ip(5) b5 m5 mf5 hf5, folded s5_def]
  have o5: "fst (rate_limit_dispatch s4 t5 n5 r5 call_next) = Inr (create_rate_limit_response n5 ip r5)"
    by (rule step5(1))
  have w5: "window (minute_requests s5) (ip @ '':minute'') = [t1, t2, t3]"
    "window (hour_requests s5) (ip @ '':hour'') = [t1, t2, t3]"
    "window (burst_requests s5) (ip @ '':burst'')
       = evict t5 10 (evict t4 10 (window (burst_requests s3) (ip @ '':burst'')))"
    using step5(2-4) by (simp_all add: w4)
  \<comment> \<open>the five requests in a row\<close>
  have outs: "fst (serve rl call_next [(t1, n1, r1), (t2, n2, r2), (t3, n3, r3), (t4, n4, r4), (t5, n5, r5)])
       = [Inr (hdr a1 ''2'' 1 t1), Inr (hdr a2 ''1'' 2 t2), Inr (hdr a3 ''0'' 3 t3),
          Inr (create_rate_limit_response n4 ip r4), Inr (create_rate_limit_response n5 ip r5)]"
    by (simp only: serve_Cons serve_Nil o1 o2 o3 o4 o5
          s1_def [symmetric] s2_def [symmetric] s3_def [symmetric] s4_def [symmetric])
  have fin: "snd (serve rl call_next [(t1, n1, r1), (t2, n2, r2), (t3, n3, r3), (t4, n4, r4), (t5, n5, r5)]) = s5"
    by (simp only: serve_Cons serve_Nil
          s1_def [symmetric] s2_def [symmetric] s3_def [symmetric] s4_def [symmetric] s5_def [symmetric])
  have three: "snd (serve rl call_next [(t1, n1, r1), (t2, n2, r2), (t3, n3, r3)]) = s3"
    by (simp only: serve_Cons serve_Nil
          s1_def [symmetric] s2_def [symmetric] s3_def [symmetric])
  have r429: "status_code (create_rate_limit_response n ip r) = 429"
     "headers (create_rate_limit_response n ip r) ''Retry-After'' = Some ''60''" for n r
    by (simp_all add: create_rate_limit_response_def Let_def)
  show ?thesis
    unfolding outs fin three w5 by (simp add: r429)
qed

theorem three_per_minute_five_requests_witness:
  "map (\<lambda>out. case out of
            Inr r \<Rightarrow> (status_code r, headers r ''X-RateLimit-Remaining-Minute'', headers r ''Retry-After'')
          | Inl e \<Rightarrow> (0, None, None))
     (fst (serve test_limiter (\<lambda>req. Inr ok_response)
        [(100, ''t'', test_request), (101, ''t'', test_request), (102, ''t'', test_request),
         (103, ''t'', test_request), (104, ''t'', test_request)]))
   = [(200, Some ''2'', None), (200, Some ''1'', None), (200, Some ''0'', None),
      (429, None, Some ''60''), (429, None, Some ''60'')]
   \<and> window (minute_requests (snd (serve test_limiter (\<lambda>req. Inr ok_response)
        [(100, ''t'', test_request), (101, ''t'', test_request), (102, ''t'', test_request),
         (103, ''t'', test_request), (104, ''t'', test_request)]))) ''testclient:minute''
     = [100, 101, 102]"
proof -
  have ip: "get_client_ip test_request = ''testclient''"
    by (simp add: get_client_ip_def test_request_def)
  have ns: "\<not> is_sensitive_endpoint (url_path test_request)"
    by (simp add: is_sensitive_endpoint_def sensitive_patterns_def test_request_def)
  have cfg: "calls_per_minute test_limiter = 3" "3 < burst_limit test_limiter"
    "3 < calls_per_hour test_limiter"
    "window (burst_requests test_limiter) (''testclient'' @ '':burst'') = []"
    "window (minute_requests test_limiter) (''testclient'' @ '':minute'') = []"
    "window (hour_requests test_limiter) (''testclient'' @ '':hour'') = []"
    by (simp_all add: test_limiter_def window_def)
  have times: "(100::real) \<le> 101" "(101::real) \<le> 102" "(102::real) \<le> 103" "(103::real) \<le> 104"
    "(104::real) \<le> 100 + 60"
    by simp_all
  have cn: "(\<lambda>req. Inr ok_response :: raised + response) test_request = Inr ok_response"
    by simp
  note run = three_per_minute_five_requests [where rl = test_limiter and ip = "''testclient''"
      and ?r1.0 = test_request and ?r2.0 = test_request and ?r3.0 = test_request
      and ?r4.0 = test_request and ?r5.0 = test_request
      and ?t1.0 = 100 and ?t2.0 = 101 and ?t3.0 = 102 and ?t4.0 = 103 and ?t5.0 = 104
      and call_next = "\<lambda>req. Inr ok_response"
      and ?a1.0 = ok_response and ?a2.0 = ok_response and ?a3.0 = ok_response
      and ?n1.0 = "''t''" and ?n2.0 = "''t''" and ?n3.0 = "''t''" and ?n4.0 = "''t''" and ?n5.0 = "''t''",
      OF cfg ip ip ip ip ip ns ns ns times cn cn cn]
  from run show ?thesis
    by (simp add: ok_response_def create_rate_limit_response_def Let_def)
qed

end
